theory Spec2Isabelle
  imports Complex_Main "HOL-Library.Sublist" "HOL-Library.Log_Nat"
begin

section \<open>Clavix Intelligence: the universal optimizer and its patterns\<close>

text \<open>
  A shallow embedding of \<^verbatim>\<open>src/core/intelligence/universal-optimizer.ts\<close> and of the
  pattern classes \<^verbatim>\<open>ConversationSummarizer\<close>, \<^verbatim>\<open>RequirementPrioritizer\<close>,
  \<^verbatim>\<open>UserPersonaEnricher\<close>, \<^verbatim>\<open>ImplicitRequirementExtractor\<close> and
  \<^verbatim>\<open>TopicCoherenceAnalyzer\<close>.

  A JavaScript number is modelled by the rational number it denotes: the finite
  double-precision values (\<^verbatim>\<open>NaN\<close> and the infinities are not modelled). Subtraction
  and division round their exact result to the nearest double, as the code's arithmetic
  does. A JavaScript string is a list of code units; the model covers the code units
  below 256 (\<^typ>\<open>char\<close>).
\<close>

subsection \<open>JavaScript primitives\<close>

text \<open>
  Rounding to the nearest double, ties to the even significand. For \<open>x > 0\<close>,
  \<open>binade x\<close> is the exponent \<open>e\<close> with \<open>2\<^sup>e \<le> x < 2\<^sup>e\<^sup>+\<^sup>1\<close>; a double has 53
  significant bits, so neighbouring doubles around \<open>x\<close> are \<open>ulp x\<close> apart, the exponent
  being held at \<open>-1022\<close> in the subnormal range.
\<close>

definition round_half_even :: "rat \<Rightarrow> int" where
  "round_half_even q =
     (let f = \<lfloor>q\<rfloor>; r = q - of_int f
      in if r < 1 / 2 then f else if 1 / 2 < r then f + 1 else if even f then f else f + 1)"

definition binade :: "rat \<Rightarrow> int" where
  "binade x =
     (let (p, q) = quotient_of x; e = bitlen p - bitlen q
      in if 2 powi e \<le> x then e else e - 1)"

definition ulp :: "rat \<Rightarrow> rat" where
  "ulp x = 2 powi (max (binade \<bar>x\<bar>) (- 1022) - 52)"

definition to_double :: "rat \<Rightarrow> rat" where
  "to_double x = (if x = 0 then 0 else of_int (round_half_even (x / ulp x)) * ulp x)"

text \<open>
  The operators \<^verbatim>\<open>-\<close> and \<^verbatim>\<open>/\<close> on numbers. (Overflow to infinity is not modelled: it
  cannot happen where the code subtracts a number from 60 or 65 or divides by 3 or 2.6.)
\<close>

definition js_sub :: "rat \<Rightarrow> rat \<Rightarrow> rat" where
  "js_sub a b = to_double (a - b)"

definition js_div :: "rat \<Rightarrow> rat \<Rightarrow> rat" where
  "js_div a b = to_double (a / b)"

text \<open>The literal \<^verbatim>\<open>2.6\<close>: the double nearest to 26/10.\<close>

definition literal_2_6 :: rat where
  "literal_2_6 = to_double (26 / 10)"

text \<open>
  \<^verbatim>\<open>Math.round\<close>: the nearest integer, a tie going towards plus infinity. It is exact on
  every double.
\<close>

definition Math_round :: "rat \<Rightarrow> int" where
  "Math_round x = \<lfloor>x + 1 / 2\<rfloor>"

text \<open>\<^verbatim>\<open>Array.prototype.join\<close> on an array of strings.\<close>

fun join :: "string \<Rightarrow> string list \<Rightarrow> string" where
  "join sep [] = []"
| "join sep [x] = x"
| "join sep (x # y # ys) = x @ sep @ join sep (y # ys)"

subsection \<open>Data model (types.ts)\<close>

datatype OptimizationMode = Fast | Deep | PRD | Conversational

datatype Impact = ImpactLow | ImpactMedium | ImpactHigh

record IntentCharacteristics =
  isOpenEnded :: bool
  needsStructure :: bool

record IntentAnalysis =
  primaryIntent :: string
  confidence :: rat
  characteristics :: IntentCharacteristics

record QualityScore =
  clarity :: rat
  efficiency :: rat
  structure_dim :: rat
  completeness :: rat
  actionability :: rat
  specificity :: rat
  overall :: rat

record Improvement =
  dimension :: string
  description :: string
  impact :: Impact

record PatternSummary =
  ps_name :: string
  ps_description :: string
  ps_impact :: Impact

record PatternResult =
  enhancedPrompt :: string
  improvement :: Improvement
  applied :: bool

record PatternContext =
  ctx_intent :: IntentAnalysis
  ctx_mode :: OptimizationMode
  originalPrompt :: string
  ctx_phase :: "string option"
  ctx_documentType :: "string option"
  ctx_questionId :: "string option"

record OptimizationResult =
  original :: string
  enhanced :: string
  intent :: IntentAnalysis
  quality :: QualityScore
  improvements :: "Improvement list"
  appliedPatterns :: "PatternSummary list"
  mode :: OptimizationMode
  processingTimeMs :: int

text \<open>
  The optional fields of \<^verbatim>\<open>OptimizationContextOverride\<close>; \<open>None\<close> is an absent
  (\<^verbatim>\<open>undefined\<close>) field.
\<close>

record OptimizationContextOverride =
  co_phase :: "string option"
  co_documentType :: "string option"
  co_questionId :: "string option"
  co_intent :: "string option"

text \<open>A value thrown by a pattern's \<^verbatim>\<open>apply\<close>.\<close>

datatype exn = Error string

text \<open>
  A registered pattern: the fields of \<^verbatim>\<open>BasePattern\<close> that the optimizer reads, and
  \<^verbatim>\<open>apply\<close>, which returns a \<^verbatim>\<open>PatternResult\<close> or throws (\<open>Inl\<close>).
\<close>

record Pattern =
  p_id :: string
  p_name :: string
  p_description :: string
  p_apply :: "string \<Rightarrow> PatternContext \<Rightarrow> exn + PatternResult"

text \<open>
  The optimizer instance holds its three collaborators (constructor injection). Their
  classes (\<^verbatim>\<open>IntentDetector\<close>, \<^verbatim>\<open>PatternLibrary\<close>, \<^verbatim>\<open>QualityAssessor\<close>) are
  parameters of the model: the methods the optimizer calls are the fields below.
\<close>

record UniversalOptimizer =
  analyze :: "string \<Rightarrow> IntentAnalysis"
  selectPatterns :: "IntentAnalysis \<Rightarrow> OptimizationMode \<Rightarrow> Pattern list"
  selectPatternsForMode :: "OptimizationMode \<Rightarrow> IntentAnalysis \<Rightarrow> string option \<Rightarrow> Pattern list"
  assess :: "string \<Rightarrow> string \<Rightarrow> IntentAnalysis \<Rightarrow> QualityScore"
  assessQuality :: "string \<Rightarrow> string \<Rightarrow> QualityScore"

subsection \<open>Escalation analysis\<close>

datatype EscalationConfidence = High | Medium | Low

text \<open>
  An \<^verbatim>\<open>EscalationReason\<close>. Its third field, \<^verbatim>\<open>description\<close>, is display text
  interpolated from the same values and is read by no decision; it is left out.
\<close>

record EscalationReason =
  factor :: string
  contribution :: int

record EscalationAnalysis =
  shouldEscalate :: bool
  escalationScore :: int
  escalationConfidence :: EscalationConfidence
  reasons :: "EscalationReason list"
  deepModeValue :: string

text \<open>
  The two accumulators of \<^verbatim>\<open>analyzeEscalation\<close>: \<^verbatim>\<open>reasons\<close> and \<^verbatim>\<open>totalScore\<close>.
  The contributions are non-negative integers, so \<^verbatim>\<open>totalScore\<close> is kept as an integer:
  the floating-point sum is exact below \<open>2\<^sup>5\<^sup>3\<close>, and a sum that large is, rounded or
  not, above every threshold the function compares it with.
\<close>

record esc_state =
  acc_reasons :: "EscalationReason list"
  totalScore :: int

text \<open>
  One factor block of \<^verbatim>\<open>analyzeEscalation\<close>:
  \<^verbatim>\<open>if (trigger) { totalScore += contribution; reasons.push({factor, contribution, ...}) }\<close>
\<close>

definition when_fired :: "bool \<Rightarrow> string \<Rightarrow> int \<Rightarrow> esc_state \<Rightarrow> esc_state" where
  "when_fired trigger f c st =
     (if trigger
      then \<lparr>acc_reasons = acc_reasons st @ [\<lparr>factor = f, contribution = c\<rparr>],
            totalScore = totalScore st + c\<rparr>
      else st)"

definition escalationIntents :: "string list" where
  "escalationIntents = [''planning'', ''prd-generation'']"

definition complexIntents :: "string list" where
  "complexIntents = [''migration'', ''security-review'']"

definition has_factor :: "EscalationReason list \<Rightarrow> string \<Rightarrow> bool" where
  "has_factor rs f = list_ex (\<lambda>r. factor r = f) rs"

definition generateDeepModeValue :: "OptimizationResult \<Rightarrow> EscalationReason list \<Rightarrow> string" where
  "generateDeepModeValue result rs =
    (let hasLowQuality = has_factor rs ''low-quality'';
         hasLowCompleteness = has_factor rs ''missing-completeness'';
         hasHighAmbiguity = has_factor rs ''high-ambiguity'';
         hasLowSpecificity = has_factor rs ''low-specificity'';
         isPlanningIntent = (primaryIntent (intent result) = ''planning''
                             \<or> primaryIntent (intent result) = ''prd-generation'');
         benefits =
           (if isPlanningIntent then [''structured implementation plan''] else [])
           @ (if hasLowQuality \<or> hasLowCompleteness
              then [''comprehensive requirements extraction''] else [])
           @ (if hasHighAmbiguity then [''alternative approaches and trade-offs''] else [])
           @ (if hasLowSpecificity then [''concrete examples and specifications''] else [])
           @ (if primaryIntent (intent result) = ''migration''
              then [''migration checklist and risk assessment''] else [])
           @ (if primaryIntent (intent result) = ''security-review''
              then [''security checklist and threat analysis''] else [])
           @ [''validation checklist'']
     in if length benefits = 0
        then ''Deep mode provides comprehensive analysis with alternative approaches.''
        else ''Deep mode would provide: '' @ join '', '' benefits @ ''.'')"

definition analyzeEscalation :: "UniversalOptimizer \<Rightarrow> OptimizationResult \<Rightarrow> EscalationAnalysis" where
  "analyzeEscalation this result =
    (let originalQuality =
           assessQuality this (original result) (primaryIntent (intent result));
         s0 = \<lparr>acc_reasons = [], totalScore = 0\<rparr>;
         s1 = when_fired (primaryIntent (intent result) \<in> set escalationIntents)
                ''intent-type'' 30 s0;
         s2 = when_fired (confidence (intent result) < 60)
                ''low-confidence''
                (Math_round (js_div (js_sub 60 (confidence (intent result))) 3)) s1;
         s3 = when_fired (overall originalQuality < 65)
                ''low-quality''
                (Math_round (js_div (js_sub 65 (overall originalQuality)) literal_2_6)) s2;
         s4 = when_fired (completeness originalQuality < 60)
                ''missing-completeness'' 15 s3;
         s5 = when_fired (specificity originalQuality < 60)
                ''low-specificity'' 15 s4;
         s6 = when_fired (isOpenEnded (characteristics (intent result))
                          \<and> needsStructure (characteristics (intent result)))
                ''high-ambiguity'' 20 s5;
         s7 = when_fired (length (original result) < 50
                          \<and> completeness originalQuality < 70)
                ''length-mismatch'' 15 s6;
         s8 = when_fired (primaryIntent (intent result) \<in> set complexIntents)
                ''complex-intent'' 20 s7;
         escalationConfidence =
           (if totalScore s8 \<ge> 75 then High
            else if totalScore s8 \<ge> 60 then Medium
            else Low);
         deepModeValue = generateDeepModeValue result (acc_reasons s8)
     in \<lparr>shouldEscalate = (totalScore s8 \<ge> 45),
         escalationScore = min (totalScore s8) 100,
         escalationConfidence = escalationConfidence,
         reasons = acc_reasons s8,
         deepModeValue = deepModeValue\<rparr>)"

definition shouldRecommendDeepMode :: "UniversalOptimizer \<Rightarrow> OptimizationResult \<Rightarrow> bool" where
  "shouldRecommendDeepMode this result = shouldEscalate (analyzeEscalation this result)"

text \<open>
  The factor table as the specification words it: trigger, factor name, contribution,
  evaluated on the quality \<open>q\<close> of the original prompt, the two quotients being taken in
  the arithmetic of the program. It is compared with \<^const>\<open>analyzeEscalation\<close> below.
\<close>

definition spec_factor_table :: "OptimizationResult \<Rightarrow> QualityScore \<Rightarrow> (bool \<times> EscalationReason) list" where
  "spec_factor_table r q =
    [(primaryIntent (intent r) \<in> {''planning'', ''prd-generation''},
        \<lparr>factor = ''intent-type'', contribution = 30\<rparr>),
     (confidence (intent r) < 60,
        \<lparr>factor = ''low-confidence'',
         contribution = Math_round (js_div (js_sub 60 (confidence (intent r))) 3)\<rparr>),
     (overall q < 65,
        \<lparr>factor = ''low-quality'',
         contribution = Math_round (js_div (js_sub 65 (overall q)) literal_2_6)\<rparr>),
     (completeness q < 60, \<lparr>factor = ''missing-completeness'', contribution = 15\<rparr>),
     (specificity q < 60, \<lparr>factor = ''low-specificity'', contribution = 15\<rparr>),
     (isOpenEnded (characteristics (intent r)) \<and> needsStructure (characteristics (intent r)),
        \<lparr>factor = ''high-ambiguity'', contribution = 20\<rparr>),
     (length (original r) < 50 \<and> completeness q < 70,
        \<lparr>factor = ''length-mismatch'', contribution = 15\<rparr>),
     (primaryIntent (intent r) \<in> {''migration'', ''security-review''},
        \<lparr>factor = ''complex-intent'', contribution = 20\<rparr>)]"

text \<open>The quality the table is evaluated on: that of \<^verbatim>\<open>result.original\<close>.\<close>

definition spec_originalQuality :: "UniversalOptimizer \<Rightarrow> OptimizationResult \<Rightarrow> QualityScore" where
  "spec_originalQuality this r = assessQuality this (original r) (primaryIntent (intent r))"

definition spec_fired :: "OptimizationResult \<Rightarrow> QualityScore \<Rightarrow> EscalationReason list" where
  "spec_fired r q = map snd (filter fst (spec_factor_table r q))"

definition spec_total :: "OptimizationResult \<Rightarrow> QualityScore \<Rightarrow> int" where
  "spec_total r q = sum_list (map contribution (spec_fired r q))"

subsection \<open>The optimization pipeline\<close>

text \<open>
  A JavaScript computation either throws (\<open>Inl\<close>) or returns a value (\<open>Inr\<close>).
  \<open>try_catch\<close> is \<^verbatim>\<open>try { body } catch (error) { handler }\<close>.
\<close>

type_synonym 'a js = "exn + 'a"

definition bind_js :: "'a js \<Rightarrow> ('a \<Rightarrow> 'b js) \<Rightarrow> 'b js" where
  "bind_js m f = (case m of Inl e \<Rightarrow> Inl e | Inr v \<Rightarrow> f v)"

definition try_catch :: "'a js \<Rightarrow> (exn \<Rightarrow> 'a js) \<Rightarrow> 'a js" where
  "try_catch body handler = (case body of Inl e \<Rightarrow> handler e | Inr v \<Rightarrow> Inr v)"

text \<open>
  The variables the pattern loop of \<^verbatim>\<open>optimize\<close> mutates, and the lines it writes with
  \<^verbatim>\<open>console.error\<close> (the message and the thrown value).
\<close>

record loop_state =
  ls_enhanced :: string
  ls_improvements :: "Improvement list"
  ls_appliedPatterns :: "PatternSummary list"
  console :: "(string \<times> exn) list"

text \<open>The body of the \<^verbatim>\<open>try\<close> block, for one pattern.\<close>

definition try_body :: "Pattern \<Rightarrow> PatternContext \<Rightarrow> loop_state \<Rightarrow> loop_state js" where
  "try_body pattern context st =
     bind_js (p_apply pattern (ls_enhanced st) context) (\<lambda>result.
       if applied result
       then Inr (st\<lparr>ls_enhanced := enhancedPrompt result,
                    ls_improvements := ls_improvements st @ [improvement result],
                    ls_appliedPatterns := ls_appliedPatterns st @
                      [\<lparr>ps_name = p_name pattern,
                        ps_description = p_description pattern,
                        ps_impact = impact (improvement result)\<rparr>]\<rparr>)
       else Inr st)"

text \<open>The \<^verbatim>\<open>catch\<close> block: log and go on with the state as it was.\<close>

definition log_error :: "Pattern \<Rightarrow> exn \<Rightarrow> loop_state \<Rightarrow> loop_state" where
  "log_error pattern error st =
     st\<lparr>console := console st @ [(''Error applying pattern '' @ p_id pattern @ '':'', error)]\<rparr>"

text \<open>\<^verbatim>\<open>for (const pattern of patterns) { try { ... } catch (error) { ... } }\<close>\<close>

fun for_patterns :: "Pattern list \<Rightarrow> PatternContext \<Rightarrow> loop_state \<Rightarrow> loop_state js" where
  "for_patterns [] context st = Inr st"
| "for_patterns (pattern # rest) context st =
     bind_js (try_catch (try_body pattern context st)
                        (\<lambda>error. Inr (log_error pattern error st)))
             (for_patterns rest context)"

text \<open>
  Two loop states that differ at most in what has been logged (used to state that a
  logged error changes nothing else).
\<close>

definition same_work :: "loop_state \<Rightarrow> loop_state \<Rightarrow> bool" where
  "same_work a b \<longleftrightarrow> ls_enhanced a = ls_enhanced b \<and> ls_improvements a = ls_improvements b
     \<and> ls_appliedPatterns a = ls_appliedPatterns b"

text \<open>
  \<^verbatim>\<open>contextOverride?.field\<close>: the field of an optional override, \<open>None\<close> when the
  override or the field is absent.
\<close>

definition override_field ::
    "OptimizationContextOverride option \<Rightarrow> (OptimizationContextOverride \<Rightarrow> 'a option) \<Rightarrow> 'a option" where
  "override_field contextOverride f = (case contextOverride of None \<Rightarrow> None | Some co \<Rightarrow> f co)"

text \<open>
  Step 1 of \<^verbatim>\<open>optimize\<close>: the detected intent, its \<^verbatim>\<open>primaryIntent\<close> replaced when
  \<^verbatim>\<open>contextOverride?.intent\<close> is truthy (a non-empty string). The \<^verbatim>\<open>as PromptIntent\<close>
  cast is erased at run time.
\<close>

definition step1_intent ::
    "UniversalOptimizer \<Rightarrow> string \<Rightarrow> OptimizationContextOverride option \<Rightarrow> IntentAnalysis" where
  "step1_intent this prompt contextOverride =
     (let intent = analyze this prompt
      in case override_field contextOverride co_intent of
           None \<Rightarrow> intent
         | Some tag \<Rightarrow> if tag \<noteq> [] then intent\<lparr>primaryIntent := tag\<rparr> else intent)"

text \<open>Step 2: mode-aware pattern selection.\<close>

definition step2_patterns ::
    "UniversalOptimizer \<Rightarrow> OptimizationMode \<Rightarrow> IntentAnalysis
       \<Rightarrow> OptimizationContextOverride option \<Rightarrow> Pattern list" where
  "step2_patterns this omode detected contextOverride =
     (if omode = PRD \<or> omode = Conversational
      then selectPatternsForMode this omode detected (override_field contextOverride co_phase)
      else selectPatterns this detected omode)"

definition step3_context ::
    "string \<Rightarrow> OptimizationMode \<Rightarrow> IntentAnalysis \<Rightarrow> OptimizationContextOverride option
       \<Rightarrow> PatternContext" where
  "step3_context prompt omode detected contextOverride =
     \<lparr>ctx_intent = detected, ctx_mode = omode, originalPrompt = prompt,
      ctx_phase = override_field contextOverride co_phase,
      ctx_documentType = override_field contextOverride co_documentType,
      ctx_questionId = override_field contextOverride co_questionId\<rparr>"

definition initial_state :: "string \<Rightarrow> loop_state" where
  "initial_state prompt =
     \<lparr>ls_enhanced = prompt, ls_improvements = [], ls_appliedPatterns = [], console = []\<rparr>"

text \<open>
  \<^verbatim>\<open>optimize\<close>. The two readings of \<^verbatim>\<open>Date.now()\<close> are the parameters \<open>startTime\<close>
  and \<open>endTime\<close>; the function returns the result together with the lines written to
  \<^verbatim>\<open>console.error\<close>. Nothing in the body awaits, so the promise is left out.
\<close>

definition optimize ::
    "UniversalOptimizer \<Rightarrow> string \<Rightarrow> OptimizationMode \<Rightarrow> OptimizationContextOverride option
       \<Rightarrow> int \<Rightarrow> int \<Rightarrow> (OptimizationResult \<times> (string \<times> exn) list) js" where
  "optimize this prompt omode contextOverride startTime endTime =
     (let intent = step1_intent this prompt contextOverride;
          patterns = step2_patterns this omode intent contextOverride;
          context = step3_context prompt omode intent contextOverride
      in bind_js (for_patterns patterns context (initial_state prompt)) (\<lambda>st.
           let quality = assess this prompt (ls_enhanced st) intent;
               processingTimeMs = endTime - startTime
           in Inr (\<lparr>original = prompt, enhanced = ls_enhanced st, intent = intent,
                     quality = quality, improvements = ls_improvements st,
                     appliedPatterns = ls_appliedPatterns st, mode = omode,
                     processingTimeMs = processingTimeMs\<rparr>,
                   console st)))"

subsection \<open>PRD answer validation\<close>

text \<open>
  \<^verbatim>\<open>suggestions[questionId]\<close> on the object literal of
  \<^verbatim>\<open>generateFriendlySuggestion\<close>: one of the five own keys gives its array; a property
  name of \<^verbatim>\<open>Object.prototype\<close> gives the inherited member (a function, or for
  \<^verbatim>\<open>__proto__\<close> the prototype object), which is truthy and has no indexed elements; any
  other key gives \<^verbatim>\<open>undefined\<close>.
\<close>

datatype suggestion_lookup = OwnArray "string list" | Inherited "int option" | Undefined

definition suggestions :: "(string \<times> string list) list" where
  "suggestions =
     [(''q1'', [''the problem you're solving'', ''why this matters'', ''who benefits'']),
      (''q2'', [''specific features'', ''user actions'', ''key functionality'']),
      (''q3'', [''technologies'', ''frameworks'', ''constraints'']),
      (''q4'', [''what's explicitly out of scope'', ''features to avoid'', ''limitations'']),
      (''q5'', [''additional context'', ''constraints'', ''timeline considerations''])]"

text \<open>
  The property names of \<^verbatim>\<open>Object.prototype\<close>, each with the \<^verbatim>\<open>length\<close> of its
  value (the arity of the function; none for the object behind \<^verbatim>\<open>__proto__\<close>).
\<close>

definition Object_prototype :: "(string \<times> int option) list" where
  "Object_prototype =
     [(''constructor'', Some 1), (''__defineGetter__'', Some 2), (''__defineSetter__'', Some 2),
      (''hasOwnProperty'', Some 1), (''__lookupGetter__'', Some 1), (''__lookupSetter__'', Some 1),
      (''isPrototypeOf'', Some 1), (''propertyIsEnumerable'', Some 1), (''toString'', Some 0),
      (''valueOf'', Some 0), (''__proto__'', None), (''toLocaleString'', Some 0)]"

definition suggestions_get :: "string \<Rightarrow> suggestion_lookup" where
  "suggestions_get questionId =
     (case map_of suggestions questionId of
        Some arr \<Rightarrow> OwnArray arr
      | None \<Rightarrow> (case map_of Object_prototype questionId of
                   Some len \<Rightarrow> Inherited len
                 | None \<Rightarrow> Undefined))"

text \<open>\<^verbatim>\<open>v.length - 1\<close>; \<open>None\<close> is \<^verbatim>\<open>NaN\<close>.\<close>

definition length_minus_1 :: "suggestion_lookup \<Rightarrow> int option" where
  "length_minus_1 v =
     (case v of OwnArray arr \<Rightarrow> Some (int (length arr) - 1)
              | Inherited len \<Rightarrow> map_option (\<lambda>n. n - 1) len
              | Undefined \<Rightarrow> None)"

text \<open>\<^verbatim>\<open>Math.min(k, x)\<close>, which is \<^verbatim>\<open>NaN\<close> when \<open>x\<close> is.\<close>

definition Math_min :: "int \<Rightarrow> int option \<Rightarrow> int option" where
  "Math_min k x = map_option (min k) x"

text \<open>
  \<^verbatim>\<open>v[i]\<close>: an element of an own array when the index is in range, \<^verbatim>\<open>undefined\<close>
  (\<open>None\<close>) otherwise, also for every index into an inherited member.
\<close>

definition index_js :: "suggestion_lookup \<Rightarrow> int option \<Rightarrow> string option" where
  "index_js v i =
     (case (v, i) of
        (OwnArray arr, Some n) \<Rightarrow> (if 0 \<le> n \<and> n < int (length arr) then Some (arr ! nat n) else None)
      | _ \<Rightarrow> None)"

text \<open>A template literal prints \<^verbatim>\<open>undefined\<close> for an undefined value.\<close>

definition interpolate :: "string option \<Rightarrow> string" where
  "interpolate v = (case v of Some s \<Rightarrow> s | None \<Rightarrow> ''undefined'')"

definition generateFriendlySuggestion :: "OptimizationResult \<Rightarrow> string \<Rightarrow> string" where
  "generateFriendlySuggestion result questionId =
     (let questionSuggestions =
            (case suggestions_get questionId of
               Undefined \<Rightarrow> OwnArray (the (map_of suggestions ''q5''))
             | v \<Rightarrow> v);
          detail0 = index_js questionSuggestions (Some 0);
          detail1 = (if completeness (quality result) < 40
                     then index_js questionSuggestions
                            (Math_min 1 (length_minus_1 questionSuggestions))
                     else detail0);
          detail2 = (if specificity (quality result) < 40
                     then index_js questionSuggestions
                            (Math_min 2 (length_minus_1 questionSuggestions))
                     else detail1)
      in ''adding '' @ interpolate detail2 @ '' would help'')"

record PRDValidation =
  needsClarification :: bool
  suggestion :: "string option"
  pv_quality :: rat

definition validatePRDAnswer ::
    "UniversalOptimizer \<Rightarrow> string \<Rightarrow> string \<Rightarrow> int \<Rightarrow> int \<Rightarrow> PRDValidation js" where
  "validatePRDAnswer this answer questionId startTime endTime =
     bind_js (optimize this answer PRD
                (Some \<lparr>co_phase = Some ''question-validation'', co_documentType = None,
                       co_questionId = Some questionId, co_intent = Some ''prd-generation''\<rparr>)
                startTime endTime) (\<lambda>(result, logged).
       if overall (quality result) < 50
       then Inr \<lparr>needsClarification = True,
                 suggestion = Some (generateFriendlySuggestion result questionId),
                 pv_quality = overall (quality result)\<rparr>
       else Inr \<lparr>needsClarification = False, suggestion = None,
                 pv_quality = overall (quality result)\<rparr>)"

text \<open>
  The selection rule as the specification words it: a completeness-gap phrase (the second
  of the question's phrases) is preferred, then a specificity-gap phrase (the third), then
  the first. It is compared with \<^const>\<open>validatePRDAnswer\<close> below.
\<close>

definition question_phrases :: "string \<Rightarrow> string list" where
  "question_phrases questionId =
     (case map_of suggestions questionId of
        Some arr \<Rightarrow> arr
      | None \<Rightarrow> [''additional context'', ''constraints'', ''timeline considerations''])"

definition spec_validation :: "QualityScore \<Rightarrow> string \<Rightarrow> PRDValidation" where
  "spec_validation q questionId =
     \<lparr>needsClarification = (overall q < 50),
      suggestion =
        (if overall q < 50
         then Some (''adding '' @
                (if completeness q < 40 then question_phrases questionId ! 1
                 else if specificity q < 40 then question_phrases questionId ! 2
                 else question_phrases questionId ! 0) @ '' would help'')
         else None),
      pv_quality = overall q\<rparr>"

text \<open>
  Modelled from the spec: the \<^verbatim>\<open>PromptIntent\<close> tags (\<^verbatim>\<open>types.ts\<close>, which declares the
  type, is not among the sources). These are the tags that the data model of the
  specification enumerates.
\<close>

definition spec_PromptIntent :: "string list" where
  "spec_PromptIntent =
     [''code-generation'', ''planning'', ''refinement'', ''debugging'', ''documentation'',
      ''prd-generation'', ''summarization'', ''migration'', ''security-review'']"

subsection \<open>Strings\<close>

text \<open>
  \<^verbatim>\<open>String.prototype.includes\<close>, \<^verbatim>\<open>toLowerCase\<close> and \<^verbatim>\<open>trim\<close> on code units
  below 256: the upper-case letters are A to Z and the Latin-1 letters 192 to 222 other
  than the multiplication sign; white space (also the class \<^verbatim>\<open>\s\<close>) is tab, line feed,
  vertical tab, form feed, carriage return, space and the no-break space.
\<close>

definition js_includes :: "string \<Rightarrow> string \<Rightarrow> bool" where
  "js_includes s searchString = sublist searchString s"

definition toLowerCase_char :: "char \<Rightarrow> char" where
  "toLowerCase_char c =
     (let n = (of_char c :: nat)
      in if (65 \<le> n \<and> n \<le> 90) \<or> (192 \<le> n \<and> n \<le> 222 \<and> n \<noteq> 215)
         then char_of (n + 32) else c)"

definition toLowerCase :: "string \<Rightarrow> string" where
  "toLowerCase s = map toLowerCase_char s"

definition is_space :: "char \<Rightarrow> bool" where
  "is_space c = ((of_char c :: nat) \<in> {9, 10, 11, 12, 13, 32, 160})"

definition trim :: "string \<Rightarrow> string" where
  "trim s = rev (dropWhile is_space (rev (dropWhile is_space s)))"

text \<open>A number inside a template literal (the numbers here are list lengths).\<close>

fun string_of_nat :: "nat \<Rightarrow> string" where
  "string_of_nat n =
     (if n < 10 then [''0123456789'' ! n]
      else string_of_nat (n div 10) @ [''0123456789'' ! (n mod 10)])"

text \<open>\<^verbatim>\<open>[...new Set(xs)]\<close>: the first occurrence of each element, in order.\<close>

fun uniq_from :: "'a list \<Rightarrow> 'a list \<Rightarrow> 'a list" where
  "uniq_from seen [] = []"
| "uniq_from seen (x # xs) =
     (if x \<in> set seen then uniq_from seen xs else x # uniq_from (x # seen) xs)"

definition uniq :: "'a list \<Rightarrow> 'a list" where
  "uniq xs = uniq_from [] xs"

subsection \<open>Regular expressions\<close>

text \<open>
  The fragment of JavaScript regular expressions that the patterns use, all with the flag
  \<^verbatim>\<open>i\<close>: literals (compared without regard to the case of ASCII letters), character
  classes, sequence, alternation, an optional part, greedy and lazy repetition of a
  character class, one capture group, lookahead and the end of input.
\<close>

datatype regex =
    Lit string
  | Cls "char \<Rightarrow> bool"
  | Seq regex regex
  | Alt regex regex
  | Opt regex
  | Plus "char \<Rightarrow> bool"
  | Star "char \<Rightarrow> bool"
  | LazyStar "char \<Rightarrow> bool"
  | Group regex
  | Lookahead regex
  | EndOfInput

definition lower_ascii :: "char \<Rightarrow> char" where
  "lower_ascii c =
     (let n = (of_char c :: nat) in if 65 \<le> n \<and> n \<le> 90 then char_of (n + 32) else c)"

text \<open>The ways a repeated class can split the input, in the order backtracking tries them.\<close>

fun splits_greedy :: "(char \<Rightarrow> bool) \<Rightarrow> string \<Rightarrow> (string \<times> string) list" where
  "splits_greedy P [] = [([], [])]"
| "splits_greedy P (c # cs) =
     (if P c then map (\<lambda>(t, r). (c # t, r)) (splits_greedy P cs) @ [([], c # cs)]
      else [([], c # cs)])"

fun splits_lazy :: "(char \<Rightarrow> bool) \<Rightarrow> string \<Rightarrow> (string \<times> string) list" where
  "splits_lazy P [] = [([], [])]"
| "splits_lazy P (c # cs) =
     ([], c # cs) # (if P c then map (\<lambda>(t, r). (c # t, r)) (splits_lazy P cs) else [])"

text \<open>
  A match attempt at the start of the input: every way to match, in backtracking order,
  as the matched text, the text of the capture group if it took part, and the rest of
  the input. The match the engine reports is the first one.
\<close>

fun rx_match :: "regex \<Rightarrow> string \<Rightarrow> (string \<times> string option \<times> string) list" where
  "rx_match (Lit w) s =
     (if length w \<le> length s \<and> map lower_ascii (take (length w) s) = map lower_ascii w
      then [(take (length w) s, None, drop (length w) s)] else [])"
| "rx_match (Cls P) s =
     (case s of [] \<Rightarrow> [] | c # cs \<Rightarrow> if P c then [([c], None, cs)] else [])"
| "rx_match (Seq a b) s =
     concat (map (\<lambda>(t1, g1, r1).
               map (\<lambda>(t2, g2, r2). (t1 @ t2, (case g2 of None \<Rightarrow> g1 | Some g \<Rightarrow> Some g), r2))
                   (rx_match b r1))
             (rx_match a s))"
| "rx_match (Alt a b) s = rx_match a s @ rx_match b s"
| "rx_match (Opt a) s = rx_match a s @ [([], None, s)]"
| "rx_match (Plus P) s =
     map (\<lambda>(t, r). (t, None, r)) (filter (\<lambda>(t, r). t \<noteq> []) (splits_greedy P s))"
| "rx_match (Star P) s = map (\<lambda>(t, r). (t, None, r)) (splits_greedy P s)"
| "rx_match (LazyStar P) s = map (\<lambda>(t, r). (t, None, r)) (splits_lazy P s)"
| "rx_match (Group a) s = map (\<lambda>(t, g, r). (t, Some t, r)) (rx_match a s)"
| "rx_match (Lookahead a) s = (if rx_match a s = [] then [] else [([], None, s)])"
| "rx_match EndOfInput s = (if s = [] then [([], None, [])] else [])"

text \<open>\<^verbatim>\<open>s.match(re)\<close> without the flag \<^verbatim>\<open>g\<close>: the first position with a match.\<close>

fun rx_exec :: "regex \<Rightarrow> string \<Rightarrow> (string \<times> string option \<times> string) option" where
  "rx_exec re [] = (case rx_match re [] of [] \<Rightarrow> None | m # _ \<Rightarrow> Some m)"
| "rx_exec re (c # cs) = (case rx_match re (c # cs) of [] \<Rightarrow> rx_exec re cs | m # _ \<Rightarrow> Some m)"

text \<open>
  \<^verbatim>\<open>s.matchAll(re)\<close> with the flag \<^verbatim>\<open>g\<close>: the capture group of every match, from left
  to right. After a match the search goes on at its end (\<open>skip\<close> counts the characters
  still inside the last match), one character further after an empty match.
\<close>

fun rx_matchAll :: "regex \<Rightarrow> nat \<Rightarrow> string \<Rightarrow> string option list" where
  "rx_matchAll re skip [] =
     (case skip of
        0 \<Rightarrow> (case rx_match re [] of [] \<Rightarrow> [] | (t, g, r) # _ \<Rightarrow> [g])
      | Suc k \<Rightarrow> [])"
| "rx_matchAll re skip (c # cs) =
     (case skip of
        0 \<Rightarrow> (case rx_match re (c # cs) of
                [] \<Rightarrow> rx_matchAll re 0 cs
              | (t, g, r) # _ \<Rightarrow> g # rx_matchAll re (length t - 1) cs)
      | Suc k \<Rightarrow> rx_matchAll re k cs)"

text \<open>\<^verbatim>\<open>(?:w1|w2|...)\<close> and a sequence of parts.\<close>

fun alts :: "string list \<Rightarrow> regex" where
  "alts [] = Cls (\<lambda>c. False)"
| "alts [w] = Lit w"
| "alts (w # ws) = Alt (Lit w) (alts ws)"

fun seqs :: "regex list \<Rightarrow> regex" where
  "seqs [] = Lit []"
| "seqs [r] = r"
| "seqs (r # rs) = Seq r (seqs rs)"

text \<open>The class \<^verbatim>\<open>.\<close>: any character but a line terminator.\<close>

definition dot :: "char \<Rightarrow> bool" where
  "dot c = ((of_char c :: nat) \<notin> {10, 13})"

text \<open>\<^verbatim>\<open>if (match[1])\<close>: the capture group took part and is not empty.\<close>

definition truthy_group :: "string option \<Rightarrow> bool" where
  "truthy_group g = (case g of None \<Rightarrow> False | Some m \<Rightarrow> m \<noteq> [])"

subsection \<open>BasePattern\<close>

text \<open>
  The two helpers the pattern classes inherit from \<^verbatim>\<open>BasePattern\<close>
  (\<^verbatim>\<open>base-pattern.ts\<close>); they are parameters of every pattern below.
\<close>

record BasePattern =
  hasSection :: "string \<Rightarrow> string list \<Rightarrow> bool"
  extractSentences :: "string \<Rightarrow> string list"

definition not_applied :: "string \<Rightarrow> string \<Rightarrow> string \<Rightarrow> PatternResult" where
  "not_applied prompt dimen descr =
     \<lparr>enhancedPrompt = prompt,
      improvement = \<lparr>dimension = dimen, description = descr, impact = ImpactLow\<rparr>,
      applied = False\<rparr>"

subsection \<open>ConversationSummarizer\<close>

definition structureIndicators :: "string list" where
  "structureIndicators =
     [''##'', ''###'', ''**Requirements:**'', ''**Features:**'', ''- [ ]'', ''1.'', ''2.'', ''3.'']"

definition isAlreadyStructured :: "string \<Rightarrow> bool" where
  "isAlreadyStructured prompt =
     (length (filter (\<lambda>indicator. js_includes prompt indicator) structureIndicators) \<ge> 3)"

definition conversationalMarkers :: "string list" where
  "conversationalMarkers =
     [''i want'', ''i need'', ''we need'', ''should be able to'', ''would like'',
      ''thinking about'', ''maybe we could'', ''what if'', ''how about'', ''let me'',
      ''let's'', ''also'', ''and then'', ''basically'', ''so basically'']"

definition isConversationalContent :: "BasePattern \<Rightarrow> string \<Rightarrow> bool" where
  "isConversationalContent base prompt =
     (let lowerPrompt = toLowerCase prompt;
          matches = filter (\<lambda>marker. js_includes lowerPrompt marker) conversationalMarkers;
          sentences = extractSentences base prompt;
          hasBulletPoints = (js_includes prompt ''- '' \<or> js_includes prompt ''* '')
      in length matches \<ge> 2 \<or> (length sentences > 3 \<and> \<not> hasBulletPoints))"

text \<open>\<^verbatim>\<open>replace(/[.!?,;:]+$/, '')\<close> and \<^verbatim>\<open>replace(/\s+/g, ' ')\<close>.\<close>

definition strip_trailing_punctuation :: "string \<Rightarrow> string" where
  "strip_trailing_punctuation s = rev (dropWhile (\<lambda>c. c \<in> set ''.!?,;:'') (rev s))"

fun collapse_spaces :: "bool \<Rightarrow> string \<Rightarrow> string" where
  "collapse_spaces in_run [] = []"
| "collapse_spaces in_run (c # cs) =
     (if is_space c
      then (if in_run then collapse_spaces True cs else CHR '' '' # collapse_spaces True cs)
      else c # collapse_spaces False cs)"

definition cleanRequirement :: "string \<Rightarrow> string" where
  "cleanRequirement text =
     take 200 (collapse_spaces False (strip_trailing_punctuation (trim text)))"

text \<open>
  The body shared by the three extraction loops: clean the capture group and push it
  unless it is empty or already in the list.
\<close>

definition push_cleaned :: "string list \<Rightarrow> string option \<Rightarrow> string list" where
  "push_cleaned items g =
     (if truthy_group g
      then (let item = cleanRequirement (the g)
            in if item \<noteq> [] \<and> item \<notin> set items then items @ [item] else items)
      else items)"

definition to_end_of_line :: regex where
  "to_end_of_line = Group (Plus dot)"

definition requirementPatterns :: "regex list" where
  "requirementPatterns =
     [seqs [alts [''need'', ''want'', ''should'', ''must'', ''require''], Plus is_space,
            Opt (Seq (Lit ''to'') (Plus is_space)), to_end_of_line],
      seqs [alts [''should be able to'', ''needs to''], Plus is_space, to_end_of_line],
      seqs [alts [''feature'', ''functionality''], Lit '':'', Star is_space, to_end_of_line]]"

definition extractRequirements :: "BasePattern \<Rightarrow> string \<Rightarrow> string list" where
  "extractRequirements base prompt =
     (let sentences = extractSentences base prompt;
          requirements =
            foldl (\<lambda>reqs sentence.
                     foldl (\<lambda>reqs pattern.
                              case rx_exec pattern sentence of
                                None \<Rightarrow> reqs
                              | Some (t, g, r) \<Rightarrow> push_cleaned reqs g)
                           reqs requirementPatterns)
                  [] sentences
      in take 10 requirements)"

definition constraintPatterns :: "regex list" where
  "constraintPatterns =
     [seqs [alts [''can't'', ''cannot'', ''shouldn't'', ''must not''], Plus is_space, to_end_of_line],
      seqs [alts [''limited to'', ''restricted to'', ''only''], Plus is_space, to_end_of_line],
      seqs [alts [''within'', ''budget'', ''deadline'', ''timeline''], Lit '':'', Star is_space,
            to_end_of_line],
      seqs [alts [''no more than'', ''at most'', ''maximum''], Plus is_space, to_end_of_line]]"

text \<open>\<^verbatim>\<open>for (const pattern of patterns) for (const match of prompt.matchAll(pattern)) ...\<close>\<close>

definition collect_matches :: "regex list \<Rightarrow> string \<Rightarrow> string list" where
  "collect_matches patterns prompt =
     foldl (\<lambda>items pattern. foldl push_cleaned items (rx_matchAll pattern 0 prompt)) [] patterns"

definition extractConstraints :: "string \<Rightarrow> string list" where
  "extractConstraints prompt =
     (let lowerPrompt = toLowerCase prompt;
          c0 = collect_matches constraintPatterns prompt;
          c1 = (if js_includes lowerPrompt ''performance''
                then c0 @ [''Performance requirements to be defined''] else c0);
          c2 = (if js_includes lowerPrompt ''security''
                then c1 @ [''Security requirements to be defined''] else c1);
          c3 = (if js_includes lowerPrompt ''mobile'' \<and> js_includes lowerPrompt ''desktop''
                then c2 @ [''Must work on both mobile and desktop''] else c2)
      in take 5 c3)"

definition goalPatterns :: "regex list" where
  "goalPatterns =
     [seqs [alts [''goal is to'', ''aim to'', ''objective is to''], Plus is_space, to_end_of_line],
      seqs [alts [''trying to'', ''looking to'', ''hoping to''], Plus is_space, to_end_of_line],
      seqs [alts [''so that'', ''in order to''], Plus is_space, to_end_of_line]]"

definition extractGoals :: "string \<Rightarrow> string list" where
  "extractGoals prompt = take 3 (collect_matches goalPatterns prompt)"

definition bullet_list :: "string list \<Rightarrow> string" where
  "bullet_list items = join ''\<newline>'' (map (\<lambda>item. ''- '' @ item) items)"

definition extractAndStructure :: "BasePattern \<Rightarrow> string \<Rightarrow> string" where
  "extractAndStructure base prompt =
     (let requirements = extractRequirements base prompt;
          constraints = extractConstraints prompt;
          goals = extractGoals prompt;
          s0 = ''### Extracted Requirements\<newline>\<newline>'';
          s1 = (if length goals > 0
                then s0 @ ''**Goals:**\<newline>'' @ bullet_list goals @ ''\<newline>\<newline>'' else s0);
          s2 = (if length requirements > 0
                then s1 @ ''**Requirements:**\<newline>'' @ bullet_list requirements @ ''\<newline>\<newline>''
                else s1);
          s3 = (if length constraints > 0
                then s2 @ ''**Constraints:**\<newline>'' @ bullet_list constraints @ ''\<newline>\<newline>''
                else s2)
      in s3 @ ''---\<newline>\<newline>**Original Context:**\<newline>'' @ prompt)"

definition ConversationSummarizer_apply ::
    "BasePattern \<Rightarrow> string \<Rightarrow> PatternContext \<Rightarrow> PatternResult" where
  "ConversationSummarizer_apply base prompt context =
     (if isAlreadyStructured prompt
      then not_applied prompt ''structure'' ''Content already well-structured''
      else if \<not> isConversationalContent base prompt
      then not_applied prompt ''structure'' ''Not conversational content''
      else \<lparr>enhancedPrompt = extractAndStructure base prompt,
            improvement = \<lparr>dimension = ''structure'',
                           description = ''Extracted structured requirements from conversation'',
                           impact = ImpactHigh\<rparr>,
            applied = True\<rparr>)"

subsection \<open>RequirementPrioritizer\<close>

definition hasFeatureContent :: "BasePattern \<Rightarrow> string \<Rightarrow> bool" where
  "hasFeatureContent base prompt =
     hasSection base prompt
       [''feature'', ''requirement'', ''functionality'', ''capability'', ''should'', ''must'',
        ''need'', ''want'', ''implement'']"

definition hasPrioritization :: "BasePattern \<Rightarrow> string \<Rightarrow> bool" where
  "hasPrioritization base prompt =
     hasSection base prompt
       [''must-have'', ''must have'', ''nice-to-have'', ''nice to have'', ''p0'', ''p1'', ''p2'',
        ''priority:'', ''mvp'', ''phase 1'', ''phase 2'', ''critical'', ''optional'']"

text \<open>The class \<^verbatim>\<open>[A-Z]\<close> under the flag \<^verbatim>\<open>i\<close>, and \<^verbatim>\<open>[\s\S]\<close>.\<close>

definition ascii_letter :: "char \<Rightarrow> bool" where
  "ascii_letter c =
     (let n = (of_char c :: nat) in (65 \<le> n \<and> n \<le> 90) \<or> (97 \<le> n \<and> n \<le> 122))"

definition any_char :: "char \<Rightarrow> bool" where
  "any_char c = True"

text \<open>\<^verbatim>\<open>head:?\s*\n([\s\S]*?)(?=\n##|\n\*\*[A-Z]|$)\<close>\<close>

definition section_after :: "regex \<Rightarrow> regex" where
  "section_after head =
     seqs [head, Opt (Lit '':''), Star is_space, Lit ''\<newline>'', Group (LazyStar any_char),
           Lookahead (Alt (Lit ''\<newline>##'')
                       (Alt (Seq (Lit ''\<newline>**'') (Cls ascii_letter)) EndOfInput))]"

definition featurePatterns :: "regex list" where
  "featurePatterns =
     [section_after (Seq (Lit ''feature'') (Opt (Lit ''s''))),
      section_after (Seq (Lit ''requirement'') (Opt (Lit ''s''))),
      section_after (seqs [Lit ''what we'', Alt (Lit (CHR 0x27 # ''re'')) (Lit '' are''),
                           Lit '' building''])]"

text \<open>
  \<^verbatim>\<open>extractFeatureSection\<close>: the capture group of the first pattern that matches, or
  \<^verbatim>\<open>null\<close>.
\<close>

fun first_section :: "regex list \<Rightarrow> string \<Rightarrow> string option" where
  "first_section [] prompt = None"
| "first_section (pattern # rest) prompt =
     (case rx_exec pattern prompt of
        Some (t, g, r) \<Rightarrow> g
      | None \<Rightarrow> first_section rest prompt)"

definition extractFeatureSection :: "string \<Rightarrow> string option" where
  "extractFeatureSection prompt = first_section featurePatterns prompt"

definition addPrioritization :: "string \<Rightarrow> string" where
  "addPrioritization prompt =
     (let featureSection = extractFeatureSection prompt
      in if \<not> truthy_group featureSection
         then prompt @ ''\<newline>\<newline>### Requirement Priorities\<newline>''
                @ ''**Must-Have (MVP):**\<newline>- [Core features required for launch]\<newline>\<newline>''
                @ ''**Nice-to-Have (Post-MVP):**\<newline>- [Features to add after initial release]''
         else prompt
                @ (''\<newline>\<newline>> **Priority Framework:** Consider categorizing features as:\<newline>''
                   @ ''> - **Must-Have (P0):** Required for MVP, blocking issues\<newline>''
                   @ ''> - **Should-Have (P1):** Important but not blocking\<newline>''
                   @ ''> - **Nice-to-Have (P2):** Enhancements for future iterations''))"

definition RequirementPrioritizer_apply ::
    "BasePattern \<Rightarrow> string \<Rightarrow> PatternContext \<Rightarrow> PatternResult" where
  "RequirementPrioritizer_apply base prompt context =
     (if \<not> hasFeatureContent base prompt
      then not_applied prompt ''structure'' ''No feature content to prioritize''
      else if hasPrioritization base prompt
      then not_applied prompt ''structure'' ''Requirements already prioritized''
      else \<lparr>enhancedPrompt = addPrioritization prompt,
            improvement =
              \<lparr>dimension = ''structure'',
               description = ''Added requirement prioritization (must-have vs nice-to-have)'',
               impact = ImpactHigh\<rparr>,
            applied = True\<rparr>)"

subsection \<open>UserPersonaEnricher\<close>

definition hasUserContext :: "BasePattern \<Rightarrow> string \<Rightarrow> bool" where
  "hasUserContext base prompt =
     hasSection base prompt
       [''user persona'', ''target user'', ''end user'', ''user profile'', ''audience'',
        ''stakeholder'', ''as a user'', ''users can'', ''users will'', ''for users'',
        ''customer'', ''developer'', ''admin'', ''target audience'']"

definition needsUserContext :: "BasePattern \<Rightarrow> string \<Rightarrow> bool" where
  "needsUserContext base prompt =
     hasSection base prompt
       [''feature'', ''build'', ''create'', ''implement'', ''functionality'', ''should'', ''must'',
        ''requirement'']"

definition inferUserType :: "string \<Rightarrow> string" where
  "inferUserType prompt =
     (let lowerPrompt = toLowerCase prompt
      in if js_includes lowerPrompt ''api'' \<or> js_includes lowerPrompt ''sdk''
            \<or> js_includes lowerPrompt ''library''
         then ''Developers integrating with the system''
         else if js_includes lowerPrompt ''admin'' \<or> js_includes lowerPrompt ''manage''
            \<or> js_includes lowerPrompt ''dashboard''
         then ''Administrators managing the system''
         else if js_includes lowerPrompt ''e-commerce'' \<or> js_includes lowerPrompt ''shop''
            \<or> js_includes lowerPrompt ''buy''
         then ''Customers making purchases''
         else if js_includes lowerPrompt ''content'' \<or> js_includes lowerPrompt ''blog''
            \<or> js_includes lowerPrompt ''cms''
         then ''Content creators and editors''
         else if js_includes lowerPrompt ''mobile'' \<or> js_includes lowerPrompt ''app''
         then ''Mobile app users''
         else ''[Define primary user type]'')"

definition addUserPersona :: "string \<Rightarrow> string" where
  "addUserPersona prompt =
     (let userType = inferUserType prompt;
          personaSection =
            ''\<newline>\<newline>### Target Users\<newline>''
            @ ''**Primary User:** '' @ userType @ ''\<newline>''
            @ ''- Goals: [What they want to achieve]\<newline>''
            @ ''- Pain Points: [Current frustrations]\<newline>''
            @ ''- Context: [When and how they'll use this]''
      in prompt @ personaSection)"

definition UserPersonaEnricher_apply ::
    "BasePattern \<Rightarrow> string \<Rightarrow> PatternContext \<Rightarrow> PatternResult" where
  "UserPersonaEnricher_apply base prompt context =
     (if hasUserContext base prompt
      then not_applied prompt ''completeness'' ''User context already present''
      else if \<not> needsUserContext base prompt
      then not_applied prompt ''completeness'' ''Content does not require user persona''
      else \<lparr>enhancedPrompt = addUserPersona prompt,
            improvement =
              \<lparr>dimension = ''completeness'',
               description = ''Added user persona context (who will use this)'',
               impact = ImpactMedium\<rparr>,
            applied = True\<rparr>)"

subsection \<open>ImplicitRequirementExtractor\<close>

text \<open>The classes \<^verbatim>\<open>[A-Za-z0-9\s]\<close> and \<^verbatim>\<open>[^.!?]\<close>.\<close>

definition alnum_or_space :: "char \<Rightarrow> bool" where
  "alnum_or_space c =
     (let n = (of_char c :: nat)
      in ascii_letter c \<or> (48 \<le> n \<and> n \<le> 57) \<or> is_space c)"

definition not_sentence_end :: "char \<Rightarrow> bool" where
  "not_sentence_end c = (c \<notin> set ''.!?'')"

definition likePattern :: regex where
  "likePattern =
     seqs [alts [''like'', ''similar to'', ''same as''], Plus is_space, Group (Plus alnum_or_space)]"

definition alwaysNeverPattern :: regex where
  "alwaysNeverPattern =
     seqs [alts [''always'', ''never'', ''must always'', ''must never''], Plus is_space,
           Group (Plus not_sentence_end)]"

text \<open>
  \<^verbatim>\<open>for (const match of matches) if (match[1]) reqs.push(pre + match[1].trim() + post)\<close>
\<close>

definition push_matches :: "string \<Rightarrow> string \<Rightarrow> string option list \<Rightarrow> string list" where
  "push_matches pre post groups =
     map (\<lambda>g. pre @ trim (the g) @ post) (filter truthy_group groups)"

definition extractImplicitRequirements :: "string \<Rightarrow> string list" where
  \<open>extractImplicitRequirements prompt =
     (let lowerPrompt = toLowerCase prompt;
          has = js_includes lowerPrompt;
          implicitReqs =
            push_matches ''Feature parity with "'' ''" (implied)'' (rx_matchAll likePattern 0 prompt)
            @ (if has ''mobile'' then [''Mobile-responsive design required''] else [])
            @ (if has ''real-time'' \<or> has ''realtime''
               then [''Real-time updates infrastructure needed''] else [])
            @ (if has ''scale'' \<or> has ''thousands'' \<or> has ''millions''
               then [''Scalability architecture required''] else [])
            @ (if has ''secure'' \<or> has ''security''
               then [''Security audit and compliance requirements''] else [])
            @ (if has ''fast'' \<or> has ''quick''
               then [''Performance optimization requirements''] else [])
            @ (if (has ''user'' \<or> has ''admin'') \<and> \<not> has ''authentication''
               then [''User authentication system (implied by user roles)''] else [])
            @ (if (has ''save'' \<or> has ''store'' \<or> has ''data'') \<and> \<not> has ''database''
               then [''Data persistence/storage (implied by data operations)''] else [])
            @ (if has ''easy'' \<or> has ''simple'' \<or> has ''intuitive''
               then [''User experience priority (simplicity mentioned)''] else [])
            @ (if has ''notify'' \<or> has ''alert'' \<or> has ''email'' \<or> has ''notification''
               then [''Notification system infrastructure''] else [])
            @ (if has ''search'' \<or> has ''find''
               then [''Search functionality and indexing''] else [])
            @ (if has ''report'' \<or> has ''analytics'' \<or> has ''dashboard''
               then [''Analytics and reporting infrastructure''] else [])
            @ (if has ''integrate'' \<or> has ''connect'' \<or> has ''sync''
               then [''Integration APIs and webhooks''] else [])
            @ push_matches ''Business rule: "'' ''" (implied constraint)''
                (rx_matchAll alwaysNeverPattern 0 prompt)
      in take 8 (uniq implicitReqs))\<close>

definition addImplicitRequirements :: "string \<Rightarrow> string list \<Rightarrow> string" where
  "addImplicitRequirements prompt implicitReqs =
     (let section = ''\<newline>\<newline>### Implicit Requirements (Inferred)\<newline>''
                    @ ''*The following requirements are implied by the discussion:*\<newline>\<newline>''
                    @ bullet_list implicitReqs
                    @ ''\<newline>\<newline>> **Note:** Please verify these inferred requirements are accurate.''
      in prompt @ section)"

definition ImplicitRequirementExtractor_apply ::
    "BasePattern \<Rightarrow> string \<Rightarrow> PatternContext \<Rightarrow> PatternResult" where
  "ImplicitRequirementExtractor_apply base prompt context =
     (let implicitReqs = extractImplicitRequirements prompt
      in if length implicitReqs = 0
         then not_applied prompt ''completeness'' ''No implicit requirements detected''
         else \<lparr>enhancedPrompt = addImplicitRequirements prompt implicitReqs,
               improvement =
                 \<lparr>dimension = ''completeness'',
                  description = ''Surfaced '' @ string_of_nat (length implicitReqs)
                                @ '' implicit requirements'',
                  impact = ImpactMedium\<rparr>,
               applied = True\<rparr>)"

subsection \<open>TopicCoherenceAnalyzer\<close>

definition topicIndicators :: "(string \<times> string list) list" where
  "topicIndicators =
     [(''User Interface'',
         [''ui'', ''interface'', ''design'', ''layout'', ''button'', ''form'', ''page'', ''screen'']),
      (''Backend/API'', [''api'', ''backend'', ''server'', ''endpoint'', ''route'', ''controller'']),
      (''Database'', [''database'', ''db'', ''schema'', ''table'', ''query'', ''migration'']),
      (''Authentication'', [''auth'', ''login'', ''password'', ''session'', ''token'', ''permission'']),
      (''Performance'', [''performance'', ''speed'', ''cache'', ''optimize'', ''latency'']),
      (''Testing'', [''test'', ''spec'', ''coverage'', ''qa'', ''validation'']),
      (''Deployment'', [''deploy'', ''ci/cd'', ''pipeline'', ''release'', ''environment'']),
      (''User Experience'', [''ux'', ''usability'', ''accessibility'', ''user flow'', ''journey'']),
      (''Business Logic'', [''business'', ''workflow'', ''process'', ''rule'', ''logic'']),
      (''Integration'', [''integration'', ''third-party'', ''external'', ''webhook'', ''sync''])]"

definition detectTopics :: "string \<Rightarrow> string list" where
  "detectTopics prompt =
     (let lowerPrompt = toLowerCase prompt
      in map fst (filter (\<lambda>(topic, keywords). list_ex (\<lambda>kw. js_includes lowerPrompt kw) keywords)
                         topicIndicators))"

definition topicHeaders :: regex where
  "topicHeaders =
     seqs [Lit ''##'', Star is_space,
           Group (alts [''user interface'', ''backend'', ''database'', ''auth'', ''performance'',
                        ''testing'', ''deploy''])]"

definition hasTopicOrganization :: "string \<Rightarrow> bool" where
  "hasTopicOrganization prompt = (rx_exec topicHeaders prompt \<noteq> None)"

definition topicKeywords :: "(string \<times> string list) list" where
  "topicKeywords =
     [(''User Interface'',
         [''ui'', ''interface'', ''design'', ''layout'', ''button'', ''form'', ''page'', ''screen'',
          ''component'']),
      (''Backend/API'',
         [''api'', ''backend'', ''server'', ''endpoint'', ''route'', ''controller'', ''service'']),
      (''Database'', [''database'', ''db'', ''schema'', ''table'', ''query'', ''migration'', ''model'']),
      (''Authentication'',
         [''auth'', ''login'', ''password'', ''session'', ''token'', ''permission'', ''user'']),
      (''Performance'',
         [''performance'', ''speed'', ''cache'', ''optimize'', ''latency'', ''fast'', ''slow'']),
      (''Testing'', [''test'', ''spec'', ''coverage'', ''qa'', ''validation'', ''verify'']),
      (''Deployment'',
         [''deploy'', ''ci/cd'', ''pipeline'', ''release'', ''environment'', ''production'']),
      (''User Experience'',
         [''ux'', ''usability'', ''accessibility'', ''user flow'', ''journey'', ''experience'']),
      (''Business Logic'',
         [''business'', ''workflow'', ''process'', ''rule'', ''logic'', ''requirement'']),
      (''Integration'',
         [''integration'', ''third-party'', ''external'', ''webhook'', ''sync'', ''connect''])]"

definition extractTopicContent :: "BasePattern \<Rightarrow> string \<Rightarrow> string \<Rightarrow> string" where
  "extractTopicContent base prompt topic =
     (let keywords = (case map_of topicKeywords topic of Some kws \<Rightarrow> kws | None \<Rightarrow> []);
          sentences = extractSentences base prompt;
          relevantSentences =
            filter (\<lambda>sentence. let lower = toLowerCase sentence
                               in list_ex (\<lambda>kw. js_includes lower kw) keywords)
                   sentences
      in if length relevantSentences = 0
         then ''- Discussion related to '' @ topic
         else join ''\<newline>'' (map (\<lambda>s. ''- '' @ trim s) (take 3 relevantSentences)))"

text \<open>\<^verbatim>\<open>topics.map((t, i) => `${i + 1}. **${t}**`)\<close>\<close>

definition numbered_topics :: "string list \<Rightarrow> string list" where
  "numbered_topics topics =
     map (\<lambda>(i, t). string_of_nat (i + 1) @ ''. **'' @ t @ ''**'') (enumerate 0 topics)"

definition organizeByTopic :: "BasePattern \<Rightarrow> string \<Rightarrow> string list \<Rightarrow> string" where
  "organizeByTopic base prompt topics =
     (let o0 = ''### Topics Covered\<newline>''
               @ ''This conversation touches on multiple areas:\<newline>''
               @ join ''\<newline>'' (numbered_topics topics)
               @ ''\<newline>\<newline>---\<newline>\<newline>''
               @ ''### Discussion by Topic\<newline>\<newline>'';
          o1 = foldl (\<lambda>organized topic.
                        let relevantContent = extractTopicContent base prompt topic
                        in if relevantContent \<noteq> []
                           then organized @ ''#### '' @ topic @ ''\<newline>''
                                  @ relevantContent @ ''\<newline>\<newline>''
                           else organized)
                     o0 topics
      in o1 @ ''---\<newline>\<newline>**Full Context:**\<newline>'' @ prompt)"

definition TopicCoherenceAnalyzer_apply ::
    "BasePattern \<Rightarrow> string \<Rightarrow> PatternContext \<Rightarrow> PatternResult" where
  "TopicCoherenceAnalyzer_apply base prompt context =
     (let topics = detectTopics prompt
      in if length topics \<le> 1
         then not_applied prompt ''structure'' ''Single coherent topic detected''
         else if hasTopicOrganization prompt
         then not_applied prompt ''structure'' ''Topics already organized''
         else \<lparr>enhancedPrompt = organizeByTopic base prompt topics,
               improvement =
                 \<lparr>dimension = ''structure'',
                  description = ''Organized '' @ string_of_nat (length topics)
                                @ '' distinct topics for clarity'',
                  impact = ImpactMedium\<rparr>,
               applied = True\<rparr>)"

subsection \<open>The five pattern classes behind one interface\<close>

datatype PatternKind =
    ConversationSummarizer
  | RequirementPrioritizer
  | UserPersonaEnricher
  | ImplicitRequirementExtractor
  | TopicCoherenceAnalyzer

text \<open>\<^verbatim>\<open>pattern.apply(prompt, context)\<close>, dispatched on the class.\<close>

fun pattern_apply :: "BasePattern \<Rightarrow> PatternKind \<Rightarrow> string \<Rightarrow> PatternContext \<Rightarrow> PatternResult" where
  "pattern_apply base ConversationSummarizer = ConversationSummarizer_apply base"
| "pattern_apply base RequirementPrioritizer = RequirementPrioritizer_apply base"
| "pattern_apply base UserPersonaEnricher = UserPersonaEnricher_apply base"
| "pattern_apply base ImplicitRequirementExtractor = ImplicitRequirementExtractor_apply base"
| "pattern_apply base TopicCoherenceAnalyzer = TopicCoherenceAnalyzer_apply base"

text \<open>
  The applicability check of each class: the tests its \<^verbatim>\<open>apply\<close> makes before it
  transforms the prompt.
\<close>

fun applicable :: "BasePattern \<Rightarrow> PatternKind \<Rightarrow> string \<Rightarrow> bool" where
  "applicable base ConversationSummarizer prompt =
     (\<not> isAlreadyStructured prompt \<and> isConversationalContent base prompt)"
| "applicable base RequirementPrioritizer prompt =
     (hasFeatureContent base prompt \<and> \<not> hasPrioritization base prompt)"
| "applicable base UserPersonaEnricher prompt =
     (\<not> hasUserContext base prompt \<and> needsUserContext base prompt)"
| "applicable base ImplicitRequirementExtractor prompt =
     (length (extractImplicitRequirements prompt) \<noteq> 0)"
| "applicable base TopicCoherenceAnalyzer prompt =
     (\<not> length (detectTopics prompt) \<le> 1 \<and> \<not> hasTopicOrganization prompt)"

text \<open>The class as a registered pattern of the optimizer; its \<^verbatim>\<open>apply\<close> does not throw.\<close>

fun pattern_id :: "PatternKind \<Rightarrow> string" where
  "pattern_id ConversationSummarizer = ''conversation-summarizer''"
| "pattern_id RequirementPrioritizer = ''requirement-prioritizer''"
| "pattern_id UserPersonaEnricher = ''user-persona-enricher''"
| "pattern_id ImplicitRequirementExtractor = ''implicit-requirement-extractor''"
| "pattern_id TopicCoherenceAnalyzer = ''topic-coherence-analyzer''"

fun pattern_name :: "PatternKind \<Rightarrow> string" where
  "pattern_name ConversationSummarizer = ''ConversationSummarizer''"
| "pattern_name RequirementPrioritizer = ''RequirementPrioritizer''"
| "pattern_name UserPersonaEnricher = ''UserPersonaEnricher''"
| "pattern_name ImplicitRequirementExtractor = ''ImplicitRequirementExtractor''"
| "pattern_name TopicCoherenceAnalyzer = ''TopicCoherenceAnalyzer''"

fun pattern_description :: "PatternKind \<Rightarrow> string" where
  "pattern_description ConversationSummarizer = ''Extracts structured requirements from messages''"
| "pattern_description RequirementPrioritizer = ''Separates must-have from nice-to-have requirements''"
| "pattern_description UserPersonaEnricher = ''Adds missing user context and personas''"
| "pattern_description ImplicitRequirementExtractor = ''Surfaces requirements mentioned indirectly''"
| "pattern_description TopicCoherenceAnalyzer = ''Detects topic shifts and multi-topic conversations''"

definition registered :: "BasePattern \<Rightarrow> PatternKind \<Rightarrow> Pattern" where
  "registered base kind =
     \<lparr>p_id = pattern_id kind, p_name = pattern_name kind,
      p_description = pattern_description kind,
      p_apply = (\<lambda>prompt context. Inr (pattern_apply base kind prompt context))\<rparr>"

text \<open>
  Where the specification places the input in the output of a pattern that applies: the
  appending patterns return the input followed by a section; the two restructuring
  patterns end with a marker line followed by the input.
\<close>

fun spec_placement :: "PatternKind \<Rightarrow> string \<Rightarrow> string \<Rightarrow> bool" where
  "spec_placement ConversationSummarizer prompt out =
     suffix (''**Original Context:**\<newline>'' @ prompt) out"
| "spec_placement TopicCoherenceAnalyzer prompt out =
     suffix (''**Full Context:**\<newline>'' @ prompt) out"
| "spec_placement kind prompt out = prefix prompt out"

text \<open>
  A list as the extraction loops of \<^verbatim>\<open>ConversationSummarizer\<close> build it: without
  duplicates, every item a non-empty result of \<^const>\<open>cleanRequirement\<close>.
\<close>

definition cleaned_list :: "string list \<Rightarrow> bool" where
  "cleaned_list items \<longleftrightarrow>
     distinct items \<and> (\<forall>item \<in> set items. item \<noteq> [] \<and> (\<exists>raw. item = cleanRequirement raw))"

definition keyword_constraints :: "string list" where
  "keyword_constraints =
     [''Performance requirements to be defined'', ''Security requirements to be defined'',
      ''Must work on both mobile and desktop'']"

subsection \<open>Calls in a world\<close>

text \<open>
  To speak about two calls, the collaborators and the patterns are given a world
  \<open>'w\<close>: everything a call can read and write besides its arguments (the clock, the
  fields of the instances, module-level variables). Each method takes the world it finds
  and returns its value with the world it leaves. \<^verbatim>\<open>Date.now()\<close> is one of these methods.
\<close>

record 'w WorldPattern =
  wp_id :: string
  wp_name :: string
  wp_description :: string
  wp_apply :: "string \<Rightarrow> PatternContext \<Rightarrow> 'w \<Rightarrow> (exn + PatternResult) \<times> 'w"

record 'w WorldOptimizer =
  Date_now :: "'w \<Rightarrow> int \<times> 'w"
  w_analyze :: "string \<Rightarrow> 'w \<Rightarrow> IntentAnalysis \<times> 'w"
  w_selectPatterns :: "IntentAnalysis \<Rightarrow> OptimizationMode \<Rightarrow> 'w \<Rightarrow> 'w WorldPattern list \<times> 'w"
  w_selectPatternsForMode ::
    "OptimizationMode \<Rightarrow> IntentAnalysis \<Rightarrow> string option \<Rightarrow> 'w \<Rightarrow> 'w WorldPattern list \<times> 'w"
  w_assess :: "string \<Rightarrow> string \<Rightarrow> IntentAnalysis \<Rightarrow> 'w \<Rightarrow> QualityScore \<times> 'w"

text \<open>
  A pattern whose \<^verbatim>\<open>apply\<close> has been called: what is left is the outcome, which the
  body of the loop treats as \<^const>\<open>try_body\<close> and \<^const>\<open>log_error\<close> say.
\<close>

definition called :: "'w WorldPattern \<Rightarrow> exn + PatternResult \<Rightarrow> Pattern" where
  "called pattern outcome =
     \<lparr>p_id = wp_id pattern, p_name = wp_name pattern, p_description = wp_description pattern,
      p_apply = (\<lambda>prompt context. outcome)\<rparr>"

fun for_patterns_w ::
    "'w WorldPattern list \<Rightarrow> PatternContext \<Rightarrow> loop_state \<Rightarrow> 'w \<Rightarrow> loop_state js \<times> 'w" where
  "for_patterns_w [] context st w = (Inr st, w)"
| "for_patterns_w (pattern # rest) context st w =
     (let (outcome, w') = wp_apply pattern (ls_enhanced st) context w
      in case try_catch (try_body (called pattern outcome) context st)
                        (\<lambda>error. Inr (log_error (called pattern outcome) error st)) of
           Inl e \<Rightarrow> (Inl e, w')
         | Inr st' \<Rightarrow> for_patterns_w rest context st' w')"

text \<open>
  \<^verbatim>\<open>optimize\<close> as a call in a world, statement by statement: the override of the
  detected intent, the mode-aware selection, the loop, the assessment and the two
  readings of the clock.
\<close>

definition override_intent :: "OptimizationContextOverride option \<Rightarrow> IntentAnalysis \<Rightarrow> IntentAnalysis" where
  "override_intent contextOverride detected =
     (case override_field contextOverride co_intent of
        None \<Rightarrow> detected
      | Some tag \<Rightarrow> if tag \<noteq> [] then detected\<lparr>primaryIntent := tag\<rparr> else detected)"

definition step2_patterns_w ::
    "'w WorldOptimizer \<Rightarrow> OptimizationMode \<Rightarrow> IntentAnalysis
       \<Rightarrow> OptimizationContextOverride option \<Rightarrow> 'w \<Rightarrow> 'w WorldPattern list \<times> 'w" where
  "step2_patterns_w this omode detected contextOverride w =
     (if omode = PRD \<or> omode = Conversational
      then w_selectPatternsForMode this omode detected (override_field contextOverride co_phase) w
      else w_selectPatterns this detected omode w)"

definition optimize_w ::
    "'w WorldOptimizer \<Rightarrow> string \<Rightarrow> OptimizationMode \<Rightarrow> OptimizationContextOverride option
       \<Rightarrow> 'w \<Rightarrow> (OptimizationResult \<times> (string \<times> exn) list) js \<times> 'w" where
  "optimize_w this prompt omode contextOverride w0 =
     (let (startTime, w1) = Date_now this w0;
          (detected, w2) = w_analyze this prompt w1;
          intent = override_intent contextOverride detected;
          (patterns, w3) = step2_patterns_w this omode intent contextOverride w2;
          context = step3_context prompt omode intent contextOverride;
          (looped, w4) = for_patterns_w patterns context (initial_state prompt) w3
      in case looped of
           Inl e \<Rightarrow> (Inl e, w4)
         | Inr st \<Rightarrow>
             (let (quality, w5) = w_assess this prompt (ls_enhanced st) intent w4;
                  (endTime, w6) = Date_now this w5
              in (Inr (\<lparr>original = prompt, enhanced = ls_enhanced st, intent = intent,
                        quality = quality, improvements = ls_improvements st,
                        appliedPatterns = ls_appliedPatterns st, mode = omode,
                        processingTimeMs = endTime - startTime\<rparr>,
                      console st), w6)))"

text \<open>
  A method is stateless when the value it returns does not depend on the world it is
  called in. The specification requires this of the detector, the library, the assessor
  and every pattern; the clock is not stateless.
\<close>

definition ignores_world :: "('w \<Rightarrow> 'a \<times> 'w) \<Rightarrow> bool" where
  "ignores_world f \<longleftrightarrow> (\<forall>w w'. fst (f w) = fst (f w'))"

definition stateless_pattern :: "'w WorldPattern \<Rightarrow> bool" where
  "stateless_pattern p \<longleftrightarrow> (\<forall>prompt context. ignores_world (wp_apply p prompt context))"

definition stateless_collaborators :: "'w WorldOptimizer \<Rightarrow> bool" where
  "stateless_collaborators this \<longleftrightarrow>
     (\<forall>prompt. ignores_world (w_analyze this prompt))
     \<and> (\<forall>i m. ignores_world (w_selectPatterns this i m))
     \<and> (\<forall>m i ph. ignores_world (w_selectPatternsForMode this m i ph))
     \<and> (\<forall>p e i. ignores_world (w_assess this p e i))
     \<and> (\<forall>i m w. list_all stateless_pattern (fst (w_selectPatterns this i m w)))
     \<and> (\<forall>m i ph w. list_all stateless_pattern (fst (w_selectPatternsForMode this m i ph w)))"



subsection \<open>Example inputs\<close>

text \<open>Concrete collaborators and results on which the theorems below are instantiated.\<close>

definition demo_intent :: "string \<Rightarrow> bool \<Rightarrow> IntentAnalysis" where
  "demo_intent tag ns = \<lparr>primaryIntent = tag, confidence = 45,
                          characteristics = \<lparr>isOpenEnded = True, needsStructure = ns\<rparr>\<rparr>"

definition demo_quality :: "rat \<Rightarrow> rat \<Rightarrow> rat \<Rightarrow> QualityScore" where
  "demo_quality c s ov = \<lparr>clarity = 40, efficiency = 40, structure_dim = 40, completeness = c,
                           actionability = 40, specificity = s, overall = ov\<rparr>"

definition demo_optimizer :: "Pattern list \<Rightarrow> QualityScore \<Rightarrow> QualityScore \<Rightarrow> UniversalOptimizer" where
  "demo_optimizer ps q_enhanced q_original =
     \<lparr>analyze = (\<lambda>p. demo_intent ''code-generation'' False),
      selectPatterns = (\<lambda>i m. ps),
      selectPatternsForMode = (\<lambda>m i ph. ps),
      assess = (\<lambda>p e i. q_enhanced),
      assessQuality = (\<lambda>p i. q_original)\<rparr>"

definition demo_result :: "string \<Rightarrow> bool \<Rightarrow> OptimizationResult" where
  "demo_result tag ns =
     \<lparr>original = ''Build a login page'', enhanced = ''Build a login page with React'',
      intent = demo_intent tag ns, quality = demo_quality 90 90 90,
      improvements = [], appliedPatterns = [], mode = Fast, processingTimeMs = 3\<rparr>"

text \<open>A pattern stub that always throws, and a pattern that always appends a suffix.\<close>

definition demo_throwing :: Pattern where
  "demo_throwing =
     \<lparr>p_id = ''stub'', p_name = ''Stub'', p_description = ''always throws'',
      p_apply = (\<lambda>prompt context. Inl (Error ''boom''))\<rparr>"

definition demo_appending :: "string \<Rightarrow> Pattern" where
  "demo_appending tail =
     \<lparr>p_id = ''append-'' @ tail, p_name = ''Append'', p_description = ''appends a suffix'',
      p_apply = (\<lambda>prompt context.
        Inr \<lparr>enhancedPrompt = prompt @ tail,
             improvement = \<lparr>dimension = ''completeness'', description = ''Added '' @ tail,
                            impact = ImpactMedium\<rparr>,
             applied = True\<rparr>)\<rparr>"

text \<open>
  Modelled from the spec: \<^verbatim>\<open>BasePattern.hasSection\<close> and
  \<^verbatim>\<open>BasePattern.extractSentences\<close> (\<^verbatim>\<open>base-pattern.ts\<close> is not among the sources).
  The specification describes the first as a test for the presence of any of the keywords
  and counts sentences for the second; here a keyword is looked for in the lower-cased
  prompt and a sentence ends at a full stop, an exclamation mark or a question mark. The
  theorems hold for every pair of helpers; this pair instantiates them.
\<close>

fun split_sentences :: "string \<Rightarrow> string \<Rightarrow> string list" where
  "split_sentences cur [] = (if trim cur = [] then [] else [trim cur])"
| "split_sentences cur (c # cs) =
     (if c \<in> set ''.!?''
      then (if trim cur = [] then split_sentences [] cs else trim cur # split_sentences [] cs)
      else split_sentences (cur @ [c]) cs)"

definition demo_base :: BasePattern where
  "demo_base =
     \<lparr>hasSection = (\<lambda>prompt keywords. list_ex (\<lambda>kw. js_includes (toLowerCase prompt) kw) keywords),
      extractSentences = split_sentences []\<rparr>"

definition demo_context :: PatternContext where
  "demo_context =
     \<lparr>ctx_intent = demo_intent ''planning'' False, ctx_mode = Deep, originalPrompt = [],
      ctx_phase = None, ctx_documentType = None, ctx_questionId = None\<rparr>"

text \<open>
  A pattern holding a counter in the world: it appends on its first call only. With it
  the library is not stateless.
\<close>

definition demo_counting :: "nat WorldPattern" where
  "demo_counting =
     \<lparr>wp_id = ''counter'', wp_name = ''Counter'', wp_description = ''appends once'',
      wp_apply = (\<lambda>prompt context n.
        (Inr \<lparr>enhancedPrompt = (if n = 0 then prompt @ '' A'' else prompt),
              improvement = \<lparr>dimension = ''completeness'', description = ''Added A'',
                             impact = ImpactMedium\<rparr>,
              applied = (n = 0)\<rparr>, Suc n))\<rparr>"

definition demo_stateful :: "nat WorldOptimizer" where
  "demo_stateful =
     \<lparr>Date_now = (\<lambda>w. (0, w)),
      w_analyze = (\<lambda>prompt w. (demo_intent ''code-generation'' False, w)),
      w_selectPatterns = (\<lambda>i m w. ([demo_counting], w)),
      w_selectPatternsForMode = (\<lambda>m i ph w. ([demo_counting], w)),
      w_assess = (\<lambda>p e i w. (demo_quality 90 90 90, w))\<rparr>"

section \<open>Properties\<close>

subsection \<open>Escalation scoring\<close>

lemma Math_round_mono: "x \<le> y \<Longrightarrow> Math_round x \<le> Math_round y"
  unfolding Math_round_def by (intro floor_mono) simp

lemma Math_round_nonneg: "0 \<le> x \<Longrightarrow> 0 \<le> Math_round x"
  unfolding Math_round_def by simp

text \<open>Rounding to the nearest double keeps the order of non-negative numbers.\<close>

lemma round_half_even_of_int [simp]: "round_half_even (of_int k) = k"
  by (simp add: round_half_even_def)

lemma round_half_even_mono: "q \<le> q' \<Longrightarrow> round_half_even q \<le> round_half_even q'"
proof -
  assume le: "q \<le> q'"
  have f: "\<lfloor>q\<rfloor> \<le> \<lfloor>q'\<rfloor>" using le by (rule floor_mono)
  have lo: "\<lfloor>q'\<rfloor> \<le> round_half_even q'" "round_half_even q \<le> \<lfloor>q\<rfloor> + 1"
    by (auto simp: round_half_even_def Let_def)
  show ?thesis
  proof (cases "\<lfloor>q\<rfloor> < \<lfloor>q'\<rfloor>")
    case True
    with lo show ?thesis by linarith
  next
    case False
    with f have eq: "\<lfloor>q\<rfloor> = \<lfloor>q'\<rfloor>" by simp
    then have "q - of_int \<lfloor>q\<rfloor> \<le> q' - of_int \<lfloor>q'\<rfloor>" using le by simp
    then show ?thesis
      unfolding round_half_even_def Let_def eq by auto
  qed
qed

lemma binade_bounds:
  assumes "0 < x"
  shows "2 powi binade x \<le> x" and "x < 2 powi (binade x + 1)"
proof -
  obtain p q where pq: "quotient_of x = (p, q)" by (cases "quotient_of x")
  then have q: "0 < q" and x: "x = of_int p / of_int q"
    using quotient_of_denom_pos quotient_of_div by blast+
  with assms have p: "0 < p"
    by (simp add: zero_less_divide_iff)
  define e where "e = bitlen p - bitlen q"
  have bp: "(2::rat) ^ nat (bitlen p - 1) \<le> of_int p" "of_int p < (2::rat) ^ nat (bitlen p)"
    using bitlen_bounds [OF p]
    by (metis of_int_le_iff of_int_numeral of_int_power, metis of_int_less_iff of_int_numeral of_int_power)
  have bq: "(2::rat) ^ nat (bitlen q - 1) \<le> of_int q" "of_int q < (2::rat) ^ nat (bitlen q)"
    using bitlen_bounds [OF q]
    by (metis of_int_le_iff of_int_numeral of_int_power, metis of_int_less_iff of_int_numeral of_int_power)
  have bl: "1 \<le> bitlen p" "1 \<le> bitlen q"
    using p q by (auto simp: bitlen_alt_def)
  have P: "(2::rat) powi (bitlen p - 1) \<le> of_int p" "of_int p < (2::rat) powi bitlen p"
    using bp bl by (simp_all add: power_int_def)
  have Q: "(2::rat) powi (bitlen q - 1) \<le> of_int q" "of_int q < (2::rat) powi bitlen q"
    using bq bl by (simp_all add: power_int_def)
  have qpos: "(0::rat) < of_int q" using q by simp
  have lower: "2 powi (e - 1) \<le> x"
  proof -
    have "(2::rat) powi (e - 1) = 2 powi (bitlen p - 1) / 2 powi bitlen q"
      unfolding e_def by (simp flip: power_int_diff add: algebra_simps)
    also have "\<dots> \<le> of_int p / 2 powi bitlen q"
      using P(1) by (simp add: divide_right_mono)
    also have "\<dots> \<le> of_int p / of_int q"
      using Q(2) p qpos by (intro divide_left_mono) (simp_all add: less_imp_le)
    finally show ?thesis by (simp add: x)
  qed
  have upper: "x < 2 powi (e + 1)"
  proof -
    have "x = of_int p / of_int q" by (rule x)
    also have "\<dots> < 2 powi bitlen p / of_int q"
      using P(2) qpos by (simp add: divide_strict_right_mono)
    also have "\<dots> \<le> 2 powi bitlen p / 2 powi (bitlen q - 1)"
      using Q(1) qpos by (intro divide_left_mono mult_pos_pos) simp_all
    also have "\<dots> = 2 powi (e + 1)"
      unfolding e_def by (simp flip: power_int_diff add: algebra_simps)
    finally show ?thesis .
  qed
  have b: "binade x = (if 2 powi e \<le> x then e else e - 1)"
    by (simp add: binade_def pq e_def Let_def)
  show "2 powi binade x \<le> x"
    using lower by (simp add: b)
  show "x < 2 powi (binade x + 1)"
    using upper by (auto simp add: b not_le)
qed

lemma binade_mono:
  assumes "0 < x" "x \<le> y"
  shows "binade x \<le> binade y"
proof (rule ccontr)
  assume "\<not> binade x \<le> binade y"
  then have "binade y + 1 \<le> binade x" by simp
  then have "(2::rat) powi (binade y + 1) \<le> 2 powi binade x"
    by (intro power_int_increasing) simp_all
  moreover have "2 powi binade x \<le> x" using assms(1) by (rule binade_bounds)
  moreover have "y < 2 powi (binade y + 1)" using assms by (intro binade_bounds) simp
  ultimately show False using assms(2) by linarith
qed

lemma powi_scale: "(2::rat) ^ n * 2 powi (e - int n) = 2 powi e"
proof -
  have "(2::rat) ^ n * 2 powi (e - int n) = 2 powi (int n) * 2 powi (e - int n)"
    by simp
  also have "\<dots> = 2 powi (int n + (e - int n))"
    by (rule power_int_add [symmetric]) simp
  finally show ?thesis by simp
qed

lemma powi_ratio: "(2::rat) powi e / 2 powi (e - int n) = 2 ^ n"
proof -
  have "(2::rat) powi e / 2 powi (e - int n) = 2 powi (e - (e - int n))"
    by (rule power_int_diff [symmetric]) simp
  then show ?thesis by simp
qed

lemma ulp_pos: "0 < ulp x"
  by (simp add: ulp_def)

lemma to_double_nonneg: "0 \<le> x \<Longrightarrow> 0 \<le> to_double x"
proof -
  assume "0 \<le> x"
  then have "0 \<le> x / ulp x" using ulp_pos [of x] by simp
  then have "round_half_even 0 \<le> round_half_even (x / ulp x)"
    by (rule round_half_even_mono)
  then have "0 \<le> round_half_even (x / ulp x)"
    using round_half_even_of_int [of 0] by simp
  then show ?thesis
    using ulp_pos [of x] by (simp add: to_double_def)
qed

lemma to_double_mono_pos:
  assumes "0 < x" "x \<le> y"
  shows "to_double x \<le> to_double y"
proof -
  have y: "0 < y" using assms by simp
  define ex where "ex = max (binade x) (- 1022)"
  define ey where "ey = max (binade y) (- 1022)"
  have ux: "ulp x = 2 powi (ex - 52)" and uy: "ulp y = 2 powi (ey - 52)"
    using assms y by (simp_all add: ulp_def ex_def ey_def)
  have fx: "to_double x = of_int (round_half_even (x / ulp x)) * ulp x"
    and fy: "to_double y = of_int (round_half_even (y / ulp y)) * ulp y"
    using assms y by (simp_all add: to_double_def)
  have exy: "ex \<le> ey"
    using binade_mono [OF assms] by (simp add: ex_def ey_def)
  show ?thesis
  proof (cases "ex = ey")
    case True
    then have u: "ulp x = ulp y" by (simp add: ux uy)
    have "x / ulp y \<le> y / ulp y"
      using assms(2) ulp_pos [of y] by (simp add: divide_right_mono)
    then have "round_half_even (x / ulp y) \<le> round_half_even (y / ulp y)"
      by (rule round_half_even_mono)
    then show ?thesis
      unfolding fx fy u using ulp_pos [of y] by (simp add: mult_right_mono)
  next
    case False
    with exy have lt: "ex + 1 \<le> ey" by simp
    then have "- 1022 < ey" by (simp add: ex_def)
    then have ey_b: "ey = binade y" by (simp add: ey_def)
    have "x < 2 powi (binade x + 1)" using assms(1) by (rule binade_bounds)
    also have "\<dots> \<le> 2 powi (ex + 1)"
      by (intro power_int_increasing) (simp_all add: ex_def)
    finally have xlt: "x < 2 powi (ex + 1)" .
    have "x / ulp x \<le> 2 powi (ex + 1) / 2 powi (ex - 52)"
      unfolding ux using xlt by (simp add: divide_right_mono less_imp_le)
    also have "\<dots> = 2 ^ 53"
      using powi_ratio [of "ex + 1" 53] by simp
    finally have "x / ulp x \<le> of_int (2 ^ 53)" by simp
    then have "round_half_even (x / ulp x) \<le> round_half_even (of_int (2 ^ 53))"
      by (rule round_half_even_mono)
    then have "round_half_even (x / ulp x) \<le> 2 ^ 53"
      using round_half_even_of_int [of "2 ^ 53"] by simp
    then have "(of_int (round_half_even (x / ulp x)) :: rat) \<le> of_int (2 ^ 53)"
      by (simp only: of_int_le_iff)
    then have "to_double x \<le> 2 ^ 53 * 2 powi (ex - 52)"
      unfolding fx ux by (simp add: mult_right_mono)
    also have "\<dots> = 2 powi (ex + 1)"
      using powi_scale [of 53 "ex + 1"] by simp
    also have "\<dots> \<le> 2 powi ey"
      using lt by (intro power_int_increasing) simp_all
    finally have left: "to_double x \<le> 2 powi ey" .
    have "2 powi ey \<le> y" unfolding ey_b using y by (rule binade_bounds)
    then have "2 powi ey / 2 powi (ey - 52) \<le> y / ulp y"
      unfolding uy by (simp add: divide_right_mono)
    moreover have "(2::rat) powi ey / 2 powi (ey - 52) = 2 ^ 52"
      using powi_ratio [of ey 52] by simp
    ultimately have "of_int (2 ^ 52) \<le> y / ulp y" by simp
    then have "round_half_even (of_int (2 ^ 52)) \<le> round_half_even (y / ulp y)"
      by (rule round_half_even_mono)
    then have "2 ^ 52 \<le> round_half_even (y / ulp y)"
      using round_half_even_of_int [of "2 ^ 52"] by simp
    then have "(of_int (2 ^ 52) :: rat) \<le> of_int (round_half_even (y / ulp y))"
      by (simp only: of_int_le_iff)
    then have "2 ^ 52 * 2 powi (ey - 52) \<le> to_double y"
      unfolding fy uy by (simp add: mult_right_mono)
    moreover have "(2::rat) ^ 52 * 2 powi (ey - 52) = 2 powi ey"
      using powi_scale [of 52 ey] by simp
    ultimately have "2 powi ey \<le> to_double y" by simp
    with left show ?thesis by linarith
  qed
qed

lemma to_double_mono: "0 \<le> x \<Longrightarrow> x \<le> y \<Longrightarrow> to_double x \<le> to_double y"
  using to_double_mono_pos [of x y] to_double_nonneg [of y]
  by (cases "x = 0") (auto simp: to_double_def)


lemma acc_reasons_when_fired:
  "acc_reasons (when_fired b f c s) =
     acc_reasons s @ (if b then [\<lparr>factor = f, contribution = c\<rparr>] else [])"
  by (simp add: when_fired_def)

lemma totalScore_when_fired:
  "totalScore (when_fired b f c s) = totalScore s + (if b then c else 0)"
  by (simp add: when_fired_def)

lemma fired_Cons:
  "map snd (filter fst ((b, x) # xs)) = (if b then [x] else []) @ map snd (filter fst xs)"
  by simp

lemma sum_contribution_if:
  "sum_list (map contribution ((if b then [\<lparr>factor = f, contribution = c\<rparr>] else []) @ ys)) =
     (if b then c else 0) + sum_list (map contribution ys)"
  by simp

lemma set_escalationIntents: "set escalationIntents = {''planning'', ''prd-generation''}"
  by (simp add: escalationIntents_def)

lemma set_complexIntents: "set complexIntents = {''migration'', ''security-review''}"
  by (simp add: complexIntents_def)

lemma chain_reasons:
  "acc_reasons (when_fired b8 f8 c8 (when_fired b7 f7 c7 (when_fired b6 f6 c6
     (when_fired b5 f5 c5 (when_fired b4 f4 c4 (when_fired b3 f3 c3
     (when_fired b2 f2 c2 (when_fired b1 f1 c1 \<lparr>acc_reasons = [], totalScore = 0\<rparr>)))))))) =
   map snd (filter fst
     [(b1, \<lparr>factor = f1, contribution = c1\<rparr>), (b2, \<lparr>factor = f2, contribution = c2\<rparr>),
      (b3, \<lparr>factor = f3, contribution = c3\<rparr>), (b4, \<lparr>factor = f4, contribution = c4\<rparr>),
      (b5, \<lparr>factor = f5, contribution = c5\<rparr>), (b6, \<lparr>factor = f6, contribution = c6\<rparr>),
      (b7, \<lparr>factor = f7, contribution = c7\<rparr>), (b8, \<lparr>factor = f8, contribution = c8\<rparr>)])"
  unfolding fired_Cons acc_reasons_when_fired
  by (simp split del: if_split)

lemma chain_total:
  "totalScore (when_fired b8 f8 c8 (when_fired b7 f7 c7 (when_fired b6 f6 c6
     (when_fired b5 f5 c5 (when_fired b4 f4 c4 (when_fired b3 f3 c3
     (when_fired b2 f2 c2 (when_fired b1 f1 c1 \<lparr>acc_reasons = [], totalScore = 0\<rparr>)))))))) =
   sum_list (map contribution (map snd (filter fst
     [(b1, \<lparr>factor = f1, contribution = c1\<rparr>), (b2, \<lparr>factor = f2, contribution = c2\<rparr>),
      (b3, \<lparr>factor = f3, contribution = c3\<rparr>), (b4, \<lparr>factor = f4, contribution = c4\<rparr>),
      (b5, \<lparr>factor = f5, contribution = c5\<rparr>), (b6, \<lparr>factor = f6, contribution = c6\<rparr>),
      (b7, \<lparr>factor = f7, contribution = c7\<rparr>), (b8, \<lparr>factor = f8, contribution = c8\<rparr>)])))"
  unfolding fired_Cons sum_contribution_if totalScore_when_fired
  by (simp split del: if_split)

lemma analyzeEscalation_table:
  "analyzeEscalation this r =
     \<lparr>shouldEscalate = (spec_total r (spec_originalQuality this r) \<ge> 45),
      escalationScore = min (spec_total r (spec_originalQuality this r)) 100,
      escalationConfidence =
        (if spec_total r (spec_originalQuality this r) \<ge> 75 then High
         else if spec_total r (spec_originalQuality this r) \<ge> 60 then Medium
         else Low),
      reasons = spec_fired r (spec_originalQuality this r),
      deepModeValue = generateDeepModeValue r (spec_fired r (spec_originalQuality this r))\<rparr>"
  unfolding analyzeEscalation_def spec_total_def spec_fired_def spec_factor_table_def Let_def
    set_escalationIntents set_complexIntents spec_originalQuality_def
  by (simp only: chain_total chain_reasons)

lemma spec_total_sum:
  "spec_total r q =
     (if primaryIntent (intent r) \<in> {''planning'', ''prd-generation''} then 30 else 0)
   + ((if confidence (intent r) < 60
       then Math_round (js_div (js_sub 60 (confidence (intent r))) 3) else 0)
   + ((if overall q < 65 then Math_round (js_div (js_sub 65 (overall q)) literal_2_6) else 0)
   + ((if completeness q < 60 then 15 else 0)
   + ((if specificity q < 60 then 15 else 0)
   + ((if isOpenEnded (characteristics (intent r)) \<and> needsStructure (characteristics (intent r))
       then 20 else 0)
   + ((if length (original r) < 50 \<and> completeness q < 70 then 15 else 0)
   + ((if primaryIntent (intent r) \<in> {''migration'', ''security-review''} then 20 else 0)
   + 0)))))))"
  unfolding spec_total_def spec_fired_def spec_factor_table_def fired_Cons sum_contribution_if
  by (simp only: filter.simps list.map sum_list.Nil)

lemma if_contribution_mono:
  "(b \<Longrightarrow> b' \<and> c \<le> c') \<Longrightarrow> (b' \<Longrightarrow> 0 \<le> c') \<Longrightarrow>
     (if b then c else 0) \<le> (if b' then c' else (0::int))"
  by (cases b; cases b') auto

text \<open>
  The rounded quotient \<^verbatim>\<open>Math.round((k - x) / d)\<close> with a positive divisor: it is not
  negative while \<open>x < k\<close>, and it does not shrink when \<open>x\<close> does.
\<close>

lemma shortfall_nonneg:
  assumes "x < k" "0 < d"
  shows "0 \<le> Math_round (js_div (js_sub k x) d)"
proof -
  have "0 \<le> to_double (k - x)"
    using assms(1) by (intro to_double_nonneg) simp
  then have "0 \<le> to_double (k - x) / d"
    using assms(2) by simp
  then have "0 \<le> to_double (to_double (k - x) / d)"
    by (rule to_double_nonneg)
  then show ?thesis
    unfolding js_div_def js_sub_def by (rule Math_round_nonneg)
qed

lemma shortfall_mono:
  assumes "x' \<le> x" "x < k" "0 < d"
  shows "Math_round (js_div (js_sub k x) d) \<le> Math_round (js_div (js_sub k x') d)"
proof -
  have "to_double (k - x) \<le> to_double (k - x')"
    using assms(1,2) by (intro to_double_mono) simp_all
  moreover have "0 \<le> to_double (k - x)"
    using assms(2) by (intro to_double_nonneg) simp
  ultimately have "to_double (to_double (k - x) / d) \<le> to_double (to_double (k - x') / d)"
    using assms(3) by (intro to_double_mono) (simp_all add: divide_right_mono)
  then show ?thesis
    unfolding js_div_def js_sub_def by (rule Math_round_mono)
qed

lemma literal_2_6_pos: "0 < literal_2_6"
  unfolding literal_2_6_def by code_simp

lemma spec_total_nonneg: "0 \<le> spec_total r q"
  unfolding spec_total_sum
  by (intro add_nonneg_nonneg) (simp_all add: shortfall_nonneg literal_2_6_pos)

lemma spec_total_mono:
  assumes "primaryIntent (intent r) \<in> {''planning'', ''prd-generation''}
           \<longrightarrow> primaryIntent (intent r') \<in> {''planning'', ''prd-generation''}"
    and "primaryIntent (intent r) \<in> {''migration'', ''security-review''}
           \<longrightarrow> primaryIntent (intent r') \<in> {''migration'', ''security-review''}"
    and "confidence (intent r') \<le> confidence (intent r)"
    and "overall q' \<le> overall q"
    and "completeness q' \<le> completeness q"
    and "specificity q' \<le> specificity q"
    and "length (original r') \<le> length (original r)"
    and "isOpenEnded (characteristics (intent r)) \<longrightarrow> isOpenEnded (characteristics (intent r'))"
    and "needsStructure (characteristics (intent r)) \<longrightarrow> needsStructure (characteristics (intent r'))"
  shows "spec_total r q \<le> spec_total r' q'"
  unfolding spec_total_sum
proof (intro add_mono if_contribution_mono order_refl)
  show "confidence (intent r) < 60 \<Longrightarrow>
    confidence (intent r') < 60 \<and>
    Math_round (js_div (js_sub 60 (confidence (intent r))) 3)
      \<le> Math_round (js_div (js_sub 60 (confidence (intent r'))) 3)"
    using assms(3) by (auto intro!: shortfall_mono)
  show "confidence (intent r') < 60 \<Longrightarrow>
    0 \<le> Math_round (js_div (js_sub 60 (confidence (intent r'))) 3)"
    by (simp add: shortfall_nonneg)
  show "overall q < 65 \<Longrightarrow>
    overall q' < 65 \<and>
    Math_round (js_div (js_sub 65 (overall q)) literal_2_6)
      \<le> Math_round (js_div (js_sub 65 (overall q')) literal_2_6)"
    using assms(4) by (auto intro!: shortfall_mono literal_2_6_pos)
  show "overall q' < 65 \<Longrightarrow> 0 \<le> Math_round (js_div (js_sub 65 (overall q')) literal_2_6)"
    by (simp add: shortfall_nonneg literal_2_6_pos)
qed (use assms in auto)

text \<open>
  Claim C1. For every optimization result, \<^const>\<open>analyzeEscalation\<close> evaluates the fixed
  factor table on the quality of the original prompt (the assessor is called on
  \<^verbatim>\<open>result.original\<close>; the enhanced text and the quality stored in the result are not
  read). The reasons are exactly the fired rows, in table order; the total is the uncapped
  sum of their contributions; the reported score is the total clamped to the interval from
  0 to 100; escalation is recommended exactly when the total is at least 45; and the
  confidence is high from 75, medium from 60 up to 74, low below 60.
\<close>

theorem analyzeEscalation_scores_original:
  "reasons (analyzeEscalation this r) = spec_fired r (spec_originalQuality this r)
   \<and> escalationScore (analyzeEscalation this r)
       = max 0 (min 100 (spec_total r (spec_originalQuality this r)))
   \<and> shouldEscalate (analyzeEscalation this r)
       = (spec_total r (spec_originalQuality this r) \<ge> 45)
   \<and> (escalationConfidence (analyzeEscalation this r) = High)
       = (spec_total r (spec_originalQuality this r) \<ge> 75)
   \<and> (escalationConfidence (analyzeEscalation this r) = Medium)
       = (60 \<le> spec_total r (spec_originalQuality this r)
          \<and> spec_total r (spec_originalQuality this r) < 75)
   \<and> (escalationConfidence (analyzeEscalation this r) = Low)
       = (spec_total r (spec_originalQuality this r) < 60)
   \<and> analyzeEscalation this (r\<lparr>enhanced := e, quality := q\<rparr>) = analyzeEscalation this r"
proof -
  have nn: "0 \<le> spec_total r (spec_originalQuality this r)"
    by (rule spec_total_nonneg)
  have same: "analyzeEscalation this (r\<lparr>enhanced := e, quality := q\<rparr>) = analyzeEscalation this r"
    by (simp add: analyzeEscalation_def generateDeepModeValue_def)
  have "reasons (analyzeEscalation this r) = spec_fired r (spec_originalQuality this r)"
    and "escalationScore (analyzeEscalation this r)
       = max 0 (min 100 (spec_total r (spec_originalQuality this r)))"
    and "shouldEscalate (analyzeEscalation this r)
       = (spec_total r (spec_originalQuality this r) \<ge> 45)"
    and "(escalationConfidence (analyzeEscalation this r) = High)
       = (spec_total r (spec_originalQuality this r) \<ge> 75)"
    and "(escalationConfidence (analyzeEscalation this r) = Medium)
       = (60 \<le> spec_total r (spec_originalQuality this r)
          \<and> spec_total r (spec_originalQuality this r) < 75)"
    and "(escalationConfidence (analyzeEscalation this r) = Low)
       = (spec_total r (spec_originalQuality this r) < 60)"
    using nn by (auto simp add: analyzeEscalation_table)
  with same show ?thesis
    by blast
qed

text \<open>
  The theorem at a planning prompt of 18 characters with confidence 45, open-ended and in
  need of structure, whose original text is assessed at completeness 30, specificity 50
  and an overall quality that is the double written \<^verbatim>\<open>24.7\<close> (the enhanced text is
  assessed at 90 throughout). Seven factors fire. The low-quality contribution is 15: the
  quotient of the doubles rounds to 15.5 less one unit in the last place, where the exact
  quotient of 40.3 by 2.6 is 15.5. The total is 115 and the reported score is 100.
\<close>

theorem analyzeEscalation_scores_original_witness:
  "analyzeEscalation
     (demo_optimizer [] (demo_quality 90 90 90) (demo_quality 30 50 (to_double (247 / 10))))
     (demo_result ''planning'' True)
   = \<lparr>shouldEscalate = True, escalationScore = 100, escalationConfidence = High,
      reasons = [\<lparr>factor = ''intent-type'', contribution = 30\<rparr>,
                 \<lparr>factor = ''low-confidence'', contribution = 5\<rparr>,
                 \<lparr>factor = ''low-quality'', contribution = 15\<rparr>,
                 \<lparr>factor = ''missing-completeness'', contribution = 15\<rparr>,
                 \<lparr>factor = ''low-specificity'', contribution = 15\<rparr>,
                 \<lparr>factor = ''high-ambiguity'', contribution = 20\<rparr>,
                 \<lparr>factor = ''length-mismatch'', contribution = 15\<rparr>],
      deepModeValue = ''Deep mode would provide: structured implementation plan, comprehensive requirements extraction, alternative approaches and trade-offs, concrete examples and specifications, validation checklist.''\<rparr>"
  (is "analyzeEscalation ?opt ?r = ?rhs")
proof -
  have t: "spec_total ?r (spec_originalQuality ?opt ?r) = 115"
    by code_simp
  have f: "spec_fired ?r (spec_originalQuality ?opt ?r) = reasons ?rhs"
    by code_simp
  have d: "deepModeValue (analyzeEscalation ?opt ?r) = deepModeValue ?rhs"
    by code_simp
  show ?thesis
    using analyzeEscalation_scores_original [of ?opt ?r] t f d
    by (intro EscalationAnalysis.equality) simp_all
qed

text \<open>
  Claim C8. Making any triggering condition more severe (the primary intent entering
  the planning or the complex intents, a lower intent confidence, a lower overall
  quality, completeness or specificity of the original prompt, a shorter original prompt,
  an ambiguity flag switched on) while no other condition becomes less severe never
  decreases the reported escalation score.
\<close>

theorem escalationScore_monotone:
  assumes "primaryIntent (intent r) \<in> {''planning'', ''prd-generation''}
           \<longrightarrow> primaryIntent (intent r') \<in> {''planning'', ''prd-generation''}"
    and "primaryIntent (intent r) \<in> {''migration'', ''security-review''}
           \<longrightarrow> primaryIntent (intent r') \<in> {''migration'', ''security-review''}"
    and "confidence (intent r') \<le> confidence (intent r)"
    and "overall (spec_originalQuality this' r') \<le> overall (spec_originalQuality this r)"
    and "completeness (spec_originalQuality this' r') \<le> completeness (spec_originalQuality this r)"
    and "specificity (spec_originalQuality this' r') \<le> specificity (spec_originalQuality this r)"
    and "length (original r') \<le> length (original r)"
    and "isOpenEnded (characteristics (intent r)) \<longrightarrow> isOpenEnded (characteristics (intent r'))"
    and "needsStructure (characteristics (intent r)) \<longrightarrow> needsStructure (characteristics (intent r'))"
  shows "escalationScore (analyzeEscalation this r) \<le> escalationScore (analyzeEscalation this' r')"
proof -
  have "spec_total r (spec_originalQuality this r) \<le> spec_total r' (spec_originalQuality this' r')"
    using assms by (rule spec_total_mono)
  then show ?thesis
    by (simp add: analyzeEscalation_table)
qed

text \<open>
  The theorem on two steps from a code-generation prompt whose original text is assessed
  at completeness 65, specificity 70 and overall 39 (score 30): the intent becomes
  planning (score 60), then completeness drops to 55 (score 75).
\<close>

theorem escalationScore_monotone_witness:
  "escalationScore (analyzeEscalation
      (demo_optimizer [] (demo_quality 90 90 90) (demo_quality 65 70 39))
      (demo_result ''code-generation'' False)) = 30
   \<and> escalationScore (analyzeEscalation
      (demo_optimizer [] (demo_quality 90 90 90) (demo_quality 65 70 39))
      (demo_result ''planning'' False)) = 60
   \<and> escalationScore (analyzeEscalation
      (demo_optimizer [] (demo_quality 90 90 90) (demo_quality 55 70 39))
      (demo_result ''planning'' False)) = 75"
proof -
  let ?opt = "demo_optimizer [] (demo_quality 90 90 90) (demo_quality 65 70 39)"
  let ?opt' = "demo_optimizer [] (demo_quality 90 90 90) (demo_quality 55 70 39)"
  let ?before = "demo_result ''code-generation'' False"
  let ?r = "demo_result ''planning'' False"
  have step1: "escalationScore (analyzeEscalation ?opt ?before)
                \<le> escalationScore (analyzeEscalation ?opt ?r)"
    by (rule escalationScore_monotone)
      (simp_all add: spec_originalQuality_def demo_optimizer_def demo_quality_def
         demo_result_def demo_intent_def)
  have step2: "escalationScore (analyzeEscalation ?opt ?r)
                \<le> escalationScore (analyzeEscalation ?opt' ?r)"
    by (rule escalationScore_monotone)
      (simp_all add: spec_originalQuality_def demo_optimizer_def demo_quality_def)
  have "escalationScore (analyzeEscalation ?opt ?before) = 30"
    by code_simp
  moreover have "escalationScore (analyzeEscalation ?opt ?r) = 60"
    by code_simp
  moreover have "escalationScore (analyzeEscalation ?opt' ?r) = 75"
    by code_simp
  ultimately show ?thesis
    using step1 step2 by simp
qed

subsection \<open>The pattern loop\<close>


lemma try_catch_returns:
  "\<exists>st'. try_catch (try_body p ctx st) (\<lambda>error. Inr (log_error p error st)) = Inr st'"
  by (cases "p_apply p (ls_enhanced st) ctx")
     (auto simp: try_catch_def try_body_def bind_js_def)

lemma for_patterns_returns: "\<exists>st'. for_patterns ps ctx st = Inr st'"
proof (induction ps arbitrary: st)
  case Nil
  show ?case by simp
next
  case (Cons p ps)
  obtain st1 where "try_catch (try_body p ctx st) (\<lambda>error. Inr (log_error p error st)) = Inr st1"
    using try_catch_returns by blast
  with Cons.IH [of st1] show ?case
    by (simp add: bind_js_def)
qed

lemma for_patterns_append:
  "for_patterns (ps1 @ ps2) ctx st = bind_js (for_patterns ps1 ctx st) (for_patterns ps2 ctx)"
proof (induction ps1 arbitrary: st)
  case Nil
  show ?case by (simp add: bind_js_def)
next
  case (Cons p ps1)
  show ?case
    by (cases "try_catch (try_body p ctx st) (\<lambda>error. Inr (log_error p error st))")
       (simp_all add: bind_js_def Cons.IH)
qed

lemma for_patterns_thrown:
  "p_apply p (ls_enhanced st) ctx = Inl e \<Longrightarrow>
     for_patterns (p # ps) ctx st = for_patterns ps ctx (log_error p e st)"
  by (simp add: try_catch_def try_body_def bind_js_def)

lemma step_same_work:
  assumes "same_work a b"
    and "try_catch (try_body p ctx a) (\<lambda>error. Inr (log_error p error a)) = Inr a'"
    and "try_catch (try_body p ctx b) (\<lambda>error. Inr (log_error p error b)) = Inr b'"
  shows "same_work a' b'"
  using assms
  by (cases "p_apply p (ls_enhanced b) ctx")
     (auto simp: same_work_def try_catch_def try_body_def bind_js_def log_error_def
           split: if_splits)

lemma for_patterns_same_work:
  "same_work a b \<Longrightarrow> for_patterns ps ctx a = Inr a' \<Longrightarrow> for_patterns ps ctx b = Inr b'
     \<Longrightarrow> same_work a' b'"
proof (induction ps arbitrary: a b)
  case Nil
  then show ?case by simp
next
  case (Cons p ps)
  obtain a1 where a1: "try_catch (try_body p ctx a) (\<lambda>error. Inr (log_error p error a)) = Inr a1"
    using try_catch_returns by blast
  obtain b1 where b1: "try_catch (try_body p ctx b) (\<lambda>error. Inr (log_error p error b)) = Inr b1"
    using try_catch_returns by blast
  have "same_work a1 b1"
    using Cons.prems(1) a1 b1 by (rule step_same_work)
  moreover have "for_patterns ps ctx a1 = Inr a'" "for_patterns ps ctx b1 = Inr b'"
    using Cons.prems(2,3) a1 b1 by (simp_all add: bind_js_def)
  ultimately show ?case
    by (rule Cons.IH)
qed

lemma console_grows:
  "for_patterns ps ctx st = Inr st' \<Longrightarrow> set (console st) \<subseteq> set (console st')"
proof (induction ps arbitrary: st)
  case Nil
  then show ?case by simp
next
  case (Cons p ps)
  obtain st1 where st1: "try_catch (try_body p ctx st) (\<lambda>error. Inr (log_error p error st)) = Inr st1"
    using try_catch_returns by blast
  then have "set (console st) \<subseteq> set (console st1)"
    by (cases "p_apply p (ls_enhanced st) ctx")
       (auto simp: try_catch_def try_body_def bind_js_def log_error_def split: if_splits)
  moreover have "set (console st1) \<subseteq> set (console st')"
    using Cons.prems st1 by (intro Cons.IH) (simp add: bind_js_def)
  ultimately show ?case by blast
qed

lemma optimize_unfold:
  "for_patterns (step2_patterns this omode (step1_intent this prompt co) co)
     (step3_context prompt omode (step1_intent this prompt co) co) (initial_state prompt) = Inr st
   \<Longrightarrow> optimize this prompt omode co t0 t1 =
       Inr (\<lparr>original = prompt, enhanced = ls_enhanced st,
              intent = step1_intent this prompt co,
              quality = assess this prompt (ls_enhanced st) (step1_intent this prompt co),
              improvements = ls_improvements st, appliedPatterns = ls_appliedPatterns st,
              mode = omode, processingTimeMs = t1 - t0\<rparr>, console st)"
  by (simp add: optimize_def Let_def bind_js_def)

text \<open>
  Claim C2. Whenever a selected pattern throws when it is reached, \<^const>\<open>optimize\<close>
  still returns a result: the exception is caught and logged, the enhanced string, the
  improvements and the applied patterns accumulated from the earlier patterns are kept,
  the throwing pattern adds nothing to them, and the remaining patterns are applied in
  order from exactly that state.
\<close>

theorem optimize_contains_pattern_failure:
  assumes sel: "step2_patterns this omode (step1_intent this prompt co) co = before @ p # rest"
    and st1: "for_patterns before (step3_context prompt omode (step1_intent this prompt co) co)
                (initial_state prompt) = Inr st1"
    and thrown: "p_apply p (ls_enhanced st1)
                   (step3_context prompt omode (step1_intent this prompt co) co) = Inl e"
  shows "\<exists>st2 res logged.
           for_patterns rest (step3_context prompt omode (step1_intent this prompt co) co) st1
             = Inr st2
         \<and> optimize this prompt omode co t0 t1 = Inr (res, logged)
         \<and> enhanced res = ls_enhanced st2
         \<and> improvements res = ls_improvements st2
         \<and> appliedPatterns res = ls_appliedPatterns st2
         \<and> (''Error applying pattern '' @ p_id p @ '':'', e) \<in> set logged"
proof -
  let ?ctx = "step3_context prompt omode (step1_intent this prompt co) co"
  obtain st2 where st2: "for_patterns rest ?ctx st1 = Inr st2"
    using for_patterns_returns by blast
  obtain st2' where st2': "for_patterns rest ?ctx (log_error p e st1) = Inr st2'"
    using for_patterns_returns by blast
  have "same_work st1 (log_error p e st1)"
    by (simp add: same_work_def log_error_def)
  then have sw: "same_work st2 st2'"
    using st2 st2' by (rule for_patterns_same_work)
  have "for_patterns (p # rest) ?ctx st1 = Inr st2'"
    by (simp only: for_patterns_thrown [OF thrown] st2')
  then have "for_patterns (before @ p # rest) ?ctx (initial_state prompt) = Inr st2'"
    by (simp add: for_patterns_append bind_js_def st1 del: for_patterns.simps)
  then have opt: "optimize this prompt omode co t0 t1 =
       Inr (\<lparr>original = prompt, enhanced = ls_enhanced st2',
              intent = step1_intent this prompt co,
              quality = assess this prompt (ls_enhanced st2') (step1_intent this prompt co),
              improvements = ls_improvements st2', appliedPatterns = ls_appliedPatterns st2',
              mode = omode, processingTimeMs = t1 - t0\<rparr>, console st2')"
    using sel by (intro optimize_unfold) simp
  have "(''Error applying pattern '' @ p_id p @ '':'', e) \<in> set (console (log_error p e st1))"
    by (simp add: log_error_def)
  then have "(''Error applying pattern '' @ p_id p @ '':'', e) \<in> set (console st2')"
    using console_grows [OF st2'] by blast
  with st2 opt sw show ?thesis
    by (simp add: same_work_def)
qed


text \<open>
  The theorem on a pipeline of three patterns whose second one is a stub that always
  throws: the first and the third suffix are both appended and the error is logged once.
\<close>

theorem optimize_contains_pattern_failure_witness:
  "optimize (demo_optimizer [demo_appending '' A'', demo_throwing, demo_appending '' B'']
              (demo_quality 90 90 90) (demo_quality 30 30 40))
     ''hi'' Fast None 0 5
   = Inr (\<lparr>original = ''hi'', enhanced = ''hi A B'',
            intent = demo_intent ''code-generation'' False,
            quality = demo_quality 90 90 90,
            improvements =
              [\<lparr>dimension = ''completeness'', description = ''Added  A'', impact = ImpactMedium\<rparr>,
               \<lparr>dimension = ''completeness'', description = ''Added  B'', impact = ImpactMedium\<rparr>],
            appliedPatterns =
              [\<lparr>ps_name = ''Append'', ps_description = ''appends a suffix'', ps_impact = ImpactMedium\<rparr>,
               \<lparr>ps_name = ''Append'', ps_description = ''appends a suffix'', ps_impact = ImpactMedium\<rparr>],
            mode = Fast, processingTimeMs = 5\<rparr>,
          [(''Error applying pattern stub:'', Error ''boom'')])"
  (is "optimize ?opt ?prompt Fast None 0 5 = Inr (?res, ?log)")
proof -
  let ?ctx = "step3_context ?prompt Fast (step1_intent ?opt ?prompt None) None"
  let ?st1 = "\<lparr>ls_enhanced = ''hi A'',
               ls_improvements =
                 [\<lparr>dimension = ''completeness'', description = ''Added  A'', impact = ImpactMedium\<rparr>],
               ls_appliedPatterns =
                 [\<lparr>ps_name = ''Append'', ps_description = ''appends a suffix'',
                   ps_impact = ImpactMedium\<rparr>],
               console = []\<rparr>"
  have sel: "step2_patterns ?opt Fast (step1_intent ?opt ?prompt None) None
               = [demo_appending '' A''] @ demo_throwing # [demo_appending '' B'']"
    by (simp add: step2_patterns_def demo_optimizer_def)
  have st1: "for_patterns [demo_appending '' A''] ?ctx (initial_state ?prompt) = Inr ?st1"
    by (simp add: try_catch_def try_body_def bind_js_def demo_appending_def initial_state_def)
  have thrown: "p_apply demo_throwing (ls_enhanced ?st1) ?ctx = Inl (Error ''boom'')"
    by (simp add: demo_throwing_def)
  obtain st2 res logged where
    rest: "for_patterns [demo_appending '' B''] ?ctx ?st1 = Inr st2"
    and opt: "optimize ?opt ?prompt Fast None 0 5 = Inr (res, logged)"
    and flds: "enhanced res = ls_enhanced st2" "improvements res = ls_improvements st2"
      "appliedPatterns res = ls_appliedPatterns st2"
    and lg: "(''Error applying pattern '' @ p_id demo_throwing @ '':'', Error ''boom'') \<in> set logged"
    using optimize_contains_pattern_failure [OF sel st1 thrown, of 0 5] by blast
  have ev: "optimize ?opt ?prompt Fast None 0 5 = Inr (?res, ?log)"
    by (simp add: optimize_def step1_intent_def step2_patterns_def step3_context_def
        override_field_def demo_optimizer_def demo_appending_def demo_throwing_def
        initial_state_def try_catch_def try_body_def bind_js_def log_error_def)
  show ?thesis
    using opt ev by simp
qed

subsection \<open>Determinism and the intent override\<close>












text \<open>
  The hypothesis is needed. A pattern that keeps a counter makes the second of two calls
  with the same arguments return another enhanced string: the body of \<^verbatim>\<open>optimize\<close>
  passes on whatever state its collaborators keep.
\<close>

lemma stateful_pattern_second_call_differs:
  "\<not> stateless_collaborators demo_stateful
   \<and> optimize_w demo_stateful ''hi'' Fast None 0
     = (Inr (\<lparr>original = ''hi'', enhanced = ''hi A'',
               intent = demo_intent ''code-generation'' False,
               quality = demo_quality 90 90 90,
               improvements =
                 [\<lparr>dimension = ''completeness'', description = ''Added A'', impact = ImpactMedium\<rparr>],
               appliedPatterns =
                 [\<lparr>ps_name = ''Counter'', ps_description = ''appends once'',
                   ps_impact = ImpactMedium\<rparr>],
               mode = Fast, processingTimeMs = 0\<rparr>, []), 1)
   \<and> optimize_w demo_stateful ''hi'' Fast None 1
     = (Inr (\<lparr>original = ''hi'', enhanced = ''hi'',
               intent = demo_intent ''code-generation'' False,
               quality = demo_quality 90 90 90,
               improvements = [], appliedPatterns = [],
               mode = Fast, processingTimeMs = 0\<rparr>, []), 2)"
proof -
  have "\<not> stateless_pattern demo_counting"
  proof
    assume "stateless_pattern demo_counting"
    then have "fst (wp_apply demo_counting ''hi'' demo_context 0)
             = fst (wp_apply demo_counting ''hi'' demo_context 1)"
      unfolding stateless_pattern_def ignores_world_def by blast
    then show False by (simp add: demo_counting_def)
  qed
  then have "\<not> stateless_collaborators demo_stateful"
    by (auto simp: stateless_collaborators_def demo_stateful_def)
  moreover have "optimize_w demo_stateful ''hi'' Fast None 0
     = (Inr (\<lparr>original = ''hi'', enhanced = ''hi A'',
               intent = demo_intent ''code-generation'' False,
               quality = demo_quality 90 90 90,
               improvements =
                 [\<lparr>dimension = ''completeness'', description = ''Added A'', impact = ImpactMedium\<rparr>],
               appliedPatterns =
                 [\<lparr>ps_name = ''Counter'', ps_description = ''appends once'',
                   ps_impact = ImpactMedium\<rparr>],
               mode = Fast, processingTimeMs = 0\<rparr>, []), 1)"
    by (simp add: optimize_w_def override_intent_def step2_patterns_w_def step3_context_def
        override_field_def demo_stateful_def demo_counting_def called_def
        initial_state_def try_catch_def try_body_def bind_js_def log_error_def)
  moreover have "optimize_w demo_stateful ''hi'' Fast None 1
     = (Inr (\<lparr>original = ''hi'', enhanced = ''hi'',
               intent = demo_intent ''code-generation'' False,
               quality = demo_quality 90 90 90,
               improvements = [], appliedPatterns = [],
               mode = Fast, processingTimeMs = 0\<rparr>, []), 2)"
    by (simp add: optimize_w_def override_intent_def step2_patterns_w_def step3_context_def
        override_field_def demo_stateful_def demo_counting_def called_def
        initial_state_def try_catch_def try_body_def bind_js_def log_error_def)
  ultimately show ?thesis by simp
qed

lemma optimize_intent:
  "\<exists>res logged. optimize this prompt omode co t0 t1 = Inr (res, logged)
     \<and> intent res = step1_intent this prompt co
     \<and> quality res = assess this prompt (enhanced res) (step1_intent this prompt co)"
proof -
  obtain st where "for_patterns (step2_patterns this omode (step1_intent this prompt co) co)
     (step3_context prompt omode (step1_intent this prompt co) co) (initial_state prompt) = Inr st"
    using for_patterns_returns by blast
  from optimize_unfold [OF this] show ?thesis by simp
qed

text \<open>
  Claim C6, as the code has it. A non-empty \<^verbatim>\<open>contextOverride.intent\<close> replaces the
  detected primary intent whatever the string is: it is not checked against the
  supported tags. Confidence and characteristics stay as detected, and the call returns.
\<close>

theorem override_intent_taken_verbatim:
  assumes "co_intent co = Some tag" and "tag \<noteq> []"
  shows "\<exists>res logged. optimize this prompt omode (Some co) t0 t1 = Inr (res, logged)
           \<and> intent res = (analyze this prompt)\<lparr>primaryIntent := tag\<rparr>"
  using optimize_intent [of this prompt omode "Some co" t0 t1] assms
  by (auto simp: step1_intent_def override_field_def)

theorem override_intent_taken_verbatim_witness:
  "\<exists>res logged.
      optimize (demo_optimizer [] (demo_quality 90 90 90) (demo_quality 30 30 40))
        ''Build a login page'' Fast
        (Some \<lparr>co_phase = None, co_documentType = None, co_questionId = None,
               co_intent = Some ''planning''\<rparr>) 0 1 = Inr (res, logged)
    \<and> intent res = \<lparr>primaryIntent = ''planning'', confidence = 45,
                     characteristics = \<lparr>isOpenEnded = True, needsStructure = False\<rparr>\<rparr>"
  using override_intent_taken_verbatim
    [of "\<lparr>co_phase = None, co_documentType = None, co_questionId = None,
          co_intent = Some ''planning''\<rparr>" "''planning''"
        "demo_optimizer [] (demo_quality 90 90 90) (demo_quality 30 30 40)"
        "''Build a login page''" Fast 0 1]
  by (simp add: demo_optimizer_def demo_intent_def)

text \<open>
  Claim C6 as stated fails: the tag \<^verbatim>\<open>no-such-intent\<close> is not a supported intent, the
  detected intent is \<^verbatim>\<open>code-generation\<close>, and the result carries the unsupported tag.
\<close>

theorem unsupported_override_counterexample:
  "''no-such-intent'' \<notin> set spec_PromptIntent
   \<and> primaryIntent (analyze (demo_optimizer [] (demo_quality 90 90 90) (demo_quality 30 30 40))
        ''Build a login page'') = ''code-generation''
   \<and> optimize (demo_optimizer [] (demo_quality 90 90 90) (demo_quality 30 30 40))
        ''Build a login page'' Fast
        (Some \<lparr>co_phase = None, co_documentType = None, co_questionId = None,
               co_intent = Some ''no-such-intent''\<rparr>) 0 1
     = Inr (\<lparr>original = ''Build a login page'', enhanced = ''Build a login page'',
              intent = \<lparr>primaryIntent = ''no-such-intent'', confidence = 45,
                        characteristics = \<lparr>isOpenEnded = True, needsStructure = False\<rparr>\<rparr>,
              quality = demo_quality 90 90 90, improvements = [], appliedPatterns = [],
              mode = Fast, processingTimeMs = 1\<rparr>, [])"
  by (simp add: spec_PromptIntent_def optimize_def step1_intent_def step2_patterns_def
      step3_context_def override_field_def demo_optimizer_def demo_intent_def
      initial_state_def bind_js_def)

subsection \<open>PRD answer validation\<close>


lemma own_array_length: "map_of suggestions questionId = Some arr \<Longrightarrow> length arr = 3"
  by (auto simp: suggestions_def split: if_splits)

lemma generateFriendlySuggestion_own:
  assumes "map_of Object_prototype questionId = None"
  shows "generateFriendlySuggestion res questionId =
           ''adding '' @
             (if specificity (quality res) < 40 then question_phrases questionId ! 2
              else if completeness (quality res) < 40 then question_phrases questionId ! 1
              else question_phrases questionId ! 0) @ '' would help''"
proof (cases "map_of suggestions questionId")
  case None
  have q5: "map_of suggestions ''q5'' =
              Some [''additional context'', ''constraints'', ''timeline considerations'']"
    by (simp add: suggestions_def)
  show ?thesis
    using None assms
    by (simp add: generateFriendlySuggestion_def suggestions_get_def question_phrases_def q5
        index_js_def Math_min_def length_minus_1_def interpolate_def)
next
  case (Some arr)
  then have "length arr = 3" by (rule own_array_length)
  with Some show ?thesis
    by (simp add: generateFriendlySuggestion_def suggestions_get_def question_phrases_def
        index_js_def Math_min_def length_minus_1_def interpolate_def)
qed

text \<open>
  Claim C3, as the code has it. \<^const>\<open>validatePRDAnswer\<close> asks for clarification exactly
  when the overall quality of the optimized answer is below 50. The suggestion then names
  the question's third phrase when specificity is below 40, otherwise its second phrase
  when completeness is below 40, otherwise its first phrase: the specificity test comes
  last in the code and overrides the completeness test. At an overall quality of 50 or
  more there is no suggestion. Question ids that are property names of
  \<^verbatim>\<open>Object.prototype\<close> are left out here.
\<close>

theorem validatePRDAnswer_suggestion_choice:
  assumes "map_of Object_prototype questionId = None"
  shows "\<exists>res logged.
      optimize this answer PRD
        (Some \<lparr>co_phase = Some ''question-validation'', co_documentType = None,
               co_questionId = Some questionId, co_intent = Some ''prd-generation''\<rparr>) t0 t1
        = Inr (res, logged)
    \<and> validatePRDAnswer this answer questionId t0 t1 =
        Inr \<lparr>needsClarification = (overall (quality res) < 50),
             suggestion =
               (if overall (quality res) < 50
                then Some (''adding '' @
                       (if specificity (quality res) < 40 then question_phrases questionId ! 2
                        else if completeness (quality res) < 40 then question_phrases questionId ! 1
                        else question_phrases questionId ! 0) @ '' would help'')
                else None),
             pv_quality = overall (quality res)\<rparr>"
proof -
  obtain res logged where opt: "optimize this answer PRD
        (Some \<lparr>co_phase = Some ''question-validation'', co_documentType = None,
               co_questionId = Some questionId, co_intent = Some ''prd-generation''\<rparr>) t0 t1
        = Inr (res, logged)"
    using optimize_intent by blast
  then show ?thesis
    by (simp add: validatePRDAnswer_def bind_js_def generateFriendlySuggestion_own [OF assms])
qed

text \<open>The theorem at question q1 with completeness 30 and specificity 60.\<close>

theorem validatePRDAnswer_suggestion_choice_witness:
  "validatePRDAnswer (demo_optimizer [] (demo_quality 30 60 40) (demo_quality 30 30 40))
     ''idk'' ''q1'' 0 1
   = Inr \<lparr>needsClarification = True, suggestion = Some ''adding why this matters would help'',
          pv_quality = 40\<rparr>"
proof -
  have "map_of Object_prototype ''q1'' = None"
    by (simp add: Object_prototype_def)
  from validatePRDAnswer_suggestion_choice [OF this,
      of "demo_optimizer [] (demo_quality 30 60 40) (demo_quality 30 30 40)" "''idk''" 0 1]
  obtain res logged where
    opt: "optimize (demo_optimizer [] (demo_quality 30 60 40) (demo_quality 30 30 40)) ''idk'' PRD
        (Some \<lparr>co_phase = Some ''question-validation'', co_documentType = None,
               co_questionId = Some ''q1'', co_intent = Some ''prd-generation''\<rparr>) 0 1
        = Inr (res, logged)"
    and v: "validatePRDAnswer (demo_optimizer [] (demo_quality 30 60 40) (demo_quality 30 30 40))
              ''idk'' ''q1'' 0 1 =
        Inr \<lparr>needsClarification = (overall (quality res) < 50),
             suggestion =
               (if overall (quality res) < 50
                then Some (''adding '' @
                       (if specificity (quality res) < 40 then question_phrases ''q1'' ! 2
                        else if completeness (quality res) < 40 then question_phrases ''q1'' ! 1
                        else question_phrases ''q1'' ! 0) @ '' would help'')
                else None),
             pv_quality = overall (quality res)\<rparr>"
    by blast
  have "quality res = demo_quality 30 60 40"
    using opt
    by (auto simp add: optimize_def step1_intent_def step2_patterns_def
        step3_context_def override_field_def demo_optimizer_def initial_state_def bind_js_def)
  then show ?thesis
    using v by (simp add: demo_quality_def question_phrases_def suggestions_def)
qed

text \<open>
  Claim C3 as stated fails when both completeness and specificity are below 40: the code
  answers with the third phrase of q1, the stated rule with the second.
\<close>

theorem validatePRDAnswer_preference_counterexample:
  "validatePRDAnswer (demo_optimizer [] (demo_quality 30 30 40) (demo_quality 30 30 40))
     ''idk'' ''q1'' 0 1
   = Inr \<lparr>needsClarification = True, suggestion = Some ''adding who benefits would help'',
          pv_quality = 40\<rparr>
   \<and> spec_validation (demo_quality 30 30 40) ''q1''
     = \<lparr>needsClarification = True, suggestion = Some ''adding why this matters would help'',
        pv_quality = 40\<rparr>
   \<and> validatePRDAnswer (demo_optimizer [] (demo_quality 30 30 40) (demo_quality 30 30 40))
        ''idk'' ''q1'' 0 1
     \<noteq> Inr (spec_validation (demo_quality 30 30 40) ''q1'')"
  by (simp add: validatePRDAnswer_def generateFriendlySuggestion_def suggestions_get_def
      spec_validation_def question_phrases_def suggestions_def
      index_js_def Math_min_def length_minus_1_def interpolate_def
      optimize_def step1_intent_def step2_patterns_def
      step3_context_def override_field_def demo_optimizer_def initial_state_def bind_js_def
      demo_quality_def)

text \<open>
  Claim C10 at the question id \<^verbatim>\<open>constructor\<close>, which is none of q1 to q5: the lookup
  finds the inherited \<^verbatim>\<open>Object.prototype.constructor\<close>, the fallback to q5 is not
  taken, and the suggestion is built from \<^verbatim>\<open>undefined\<close> instead of a q5 phrase.
\<close>

theorem validatePRDAnswer_inherited_key:
  "map_of suggestions ''constructor'' = None
   \<and> validatePRDAnswer (demo_optimizer [] (demo_quality 60 60 40) (demo_quality 60 60 40))
       ''idk'' ''constructor'' 0 1
     = Inr \<lparr>needsClarification = True, suggestion = Some ''adding undefined would help'',
            pv_quality = 40\<rparr>"
  by (simp add: validatePRDAnswer_def generateFriendlySuggestion_def suggestions_get_def
      suggestions_def Object_prototype_def
      index_js_def Math_min_def length_minus_1_def interpolate_def
      optimize_def step1_intent_def step2_patterns_def
      step3_context_def override_field_def demo_optimizer_def initial_state_def bind_js_def
      demo_quality_def)

subsection \<open>The pattern classes\<close>


lemma applied_iff_applicable:
  "applied (pattern_apply base kind prompt context) = applicable base kind prompt"
  by (cases kind)
     (simp_all add: ConversationSummarizer_apply_def RequirementPrioritizer_apply_def
        UserPersonaEnricher_apply_def ImplicitRequirementExtractor_apply_def
        TopicCoherenceAnalyzer_apply_def not_applied_def Let_def)

text \<open>
  Claim C4. For each of the five pattern classes and every text on which the class's
  applicability check fails, \<^verbatim>\<open>apply\<close> reports \<^verbatim>\<open>applied = false\<close> and returns the
  text unchanged. (The check is what decides \<^verbatim>\<open>applied\<close>, by the lemma above.)
\<close>

theorem inapplicable_pattern_returns_input:
  assumes "\<not> applicable base kind prompt"
  shows "applied (pattern_apply base kind prompt context) = False
         \<and> enhancedPrompt (pattern_apply base kind prompt context) = prompt"
  using assms
  by (cases kind)
     (auto simp add: ConversationSummarizer_apply_def RequirementPrioritizer_apply_def
        UserPersonaEnricher_apply_def ImplicitRequirementExtractor_apply_def
        TopicCoherenceAnalyzer_apply_def not_applied_def Let_def)

text \<open>The theorem on one inapplicable text for each class.\<close>

theorem inapplicable_pattern_returns_input_witness:
  "enhancedPrompt (pattern_apply demo_base ConversationSummarizer
      ''## Plan\<newline>1. design\<newline>2. build'' demo_context) = ''## Plan\<newline>1. design\<newline>2. build''
   \<and> \<not> applied (pattern_apply demo_base ConversationSummarizer
      ''## Plan\<newline>1. design\<newline>2. build'' demo_context)
   \<and> enhancedPrompt (pattern_apply demo_base RequirementPrioritizer ''hello'' demo_context) = ''hello''
   \<and> \<not> applied (pattern_apply demo_base RequirementPrioritizer ''hello'' demo_context)
   \<and> enhancedPrompt (pattern_apply demo_base UserPersonaEnricher ''Build an admin page'' demo_context)
       = ''Build an admin page''
   \<and> \<not> applied (pattern_apply demo_base UserPersonaEnricher ''Build an admin page'' demo_context)
   \<and> enhancedPrompt (pattern_apply demo_base ImplicitRequirementExtractor ''hello'' demo_context)
       = ''hello''
   \<and> \<not> applied (pattern_apply demo_base ImplicitRequirementExtractor ''hello'' demo_context)
   \<and> enhancedPrompt (pattern_apply demo_base TopicCoherenceAnalyzer ''hello'' demo_context) = ''hello''
   \<and> \<not> applied (pattern_apply demo_base TopicCoherenceAnalyzer ''hello'' demo_context)"
proof -
  have 1: "\<not> applicable demo_base ConversationSummarizer ''## Plan\<newline>1. design\<newline>2. build''"
    by code_simp
  have 2: "\<not> applicable demo_base RequirementPrioritizer ''hello''"
    by code_simp
  have 3: "\<not> applicable demo_base UserPersonaEnricher ''Build an admin page''"
    by code_simp
  have 4: "\<not> applicable demo_base ImplicitRequirementExtractor ''hello''"
    by code_simp
  have 5: "\<not> applicable demo_base TopicCoherenceAnalyzer ''hello''"
    by code_simp
  show ?thesis
    using inapplicable_pattern_returns_input [OF 1, of demo_context]
      inapplicable_pattern_returns_input [OF 2, of demo_context]
      inapplicable_pattern_returns_input [OF 3, of demo_context]
      inapplicable_pattern_returns_input [OF 4, of demo_context]
      inapplicable_pattern_returns_input [OF 5, of demo_context]
    by simp
qed

lemma extractAndStructure_suffix:
  "suffix (''**Original Context:**\<newline>'' @ prompt) (extractAndStructure base prompt)"
proof -
  have "\<exists>pre. extractAndStructure base prompt = pre @ ''**Original Context:**\<newline>'' @ prompt"
    unfolding extractAndStructure_def Let_def
    by (rule exI [where x = "_ @ ''---\<newline>\<newline>''"]) simp
  then show ?thesis
    by (auto simp: suffix_def)
qed

lemma organizeByTopic_suffix:
  "suffix (''**Full Context:**\<newline>'' @ prompt) (organizeByTopic base prompt topics)"
proof -
  have "\<exists>pre. organizeByTopic base prompt topics = pre @ ''**Full Context:**\<newline>'' @ prompt"
    unfolding organizeByTopic_def Let_def
    by (rule exI [where x = "_ @ ''---\<newline>\<newline>''"]) simp
  then show ?thesis
    by (auto simp: suffix_def)
qed

lemma addPrioritization_prefix: "prefix prompt (addPrioritization prompt)"
  by (simp add: addPrioritization_def Let_def)

lemma addUserPersona_prefix: "prefix prompt (addUserPersona prompt)"
  by (simp add: addUserPersona_def Let_def)

lemma addImplicitRequirements_prefix: "prefix prompt (addImplicitRequirements prompt reqs)"
  by (simp add: addImplicitRequirements_def Let_def)

lemma suffix_tail_sublist: "suffix (marker @ prompt) out \<Longrightarrow> sublist prompt out"
  by (auto simp: suffix_def sublist_def) (metis append.assoc append_Nil2)

lemma placement_sublist: "spec_placement kind prompt out \<Longrightarrow> sublist prompt out"
proof (cases kind)
  case ConversationSummarizer
  assume "spec_placement kind prompt out"
  then have "suffix (''**Original Context:**\<newline>'' @ prompt) out"
    unfolding ConversationSummarizer by (simp only: spec_placement.simps)
  then show ?thesis by (rule suffix_tail_sublist)
next
  case TopicCoherenceAnalyzer
  assume "spec_placement kind prompt out"
  then have "suffix (''**Full Context:**\<newline>'' @ prompt) out"
    unfolding TopicCoherenceAnalyzer by (simp only: spec_placement.simps)
  then show ?thesis by (rule suffix_tail_sublist)
qed simp_all

lemma applied_enhancedPrompt:
  assumes "applied (pattern_apply base kind prompt context)"
  shows "enhancedPrompt (pattern_apply base kind prompt context) =
           (case kind of
              ConversationSummarizer \<Rightarrow> extractAndStructure base prompt
            | RequirementPrioritizer \<Rightarrow> addPrioritization prompt
            | UserPersonaEnricher \<Rightarrow> addUserPersona prompt
            | ImplicitRequirementExtractor \<Rightarrow>
                addImplicitRequirements prompt (extractImplicitRequirements prompt)
            | TopicCoherenceAnalyzer \<Rightarrow> organizeByTopic base prompt (detectTopics prompt))"
  using assms
  by (cases kind)
     (simp_all add: ConversationSummarizer_apply_def RequirementPrioritizer_apply_def
        UserPersonaEnricher_apply_def ImplicitRequirementExtractor_apply_def
        TopicCoherenceAnalyzer_apply_def not_applied_def Let_def split: if_splits)

lemma applied_placement:
  assumes "applied (pattern_apply base kind prompt context)"
  shows "spec_placement kind prompt (enhancedPrompt (pattern_apply base kind prompt context))"
  unfolding applied_enhancedPrompt [OF assms]
  by (cases kind)
     (simp_all only: PatternKind.case spec_placement.simps extractAndStructure_suffix
        organizeByTopic_suffix addPrioritization_prefix addUserPersona_prefix
        addImplicitRequirements_prefix)

text \<open>
  Claim C5. Whenever one of the five pattern classes applies, the input text is a
  contiguous part of the enhanced prompt: the three appending classes return the input
  followed by their section, and the two restructuring classes end with their marker
  line (\<^verbatim>\<open>**Original Context:**\<close>, \<^verbatim>\<open>**Full Context:**\<close>) followed by the whole input.
\<close>

theorem applied_pattern_keeps_input:
  assumes "applied (pattern_apply base kind prompt context)"
  shows "sublist prompt (enhancedPrompt (pattern_apply base kind prompt context))
         \<and> spec_placement kind prompt (enhancedPrompt (pattern_apply base kind prompt context))"
  using applied_placement [OF assms] placement_sublist by blast


text \<open>The theorem on one text for each class on which the class applies.\<close>

theorem applied_pattern_keeps_input_witness:
  "sublist ''i want also only performance security mobile desktop''
     (enhancedPrompt (pattern_apply demo_base ConversationSummarizer
        ''i want also only performance security mobile desktop'' demo_context))
   \<and> sublist ''We need login''
     (enhancedPrompt (pattern_apply demo_base RequirementPrioritizer ''We need login'' demo_context))
   \<and> sublist ''Build an API''
     (enhancedPrompt (pattern_apply demo_base UserPersonaEnricher ''Build an API'' demo_context))
   \<and> sublist ''fast search''
     (enhancedPrompt (pattern_apply demo_base ImplicitRequirementExtractor ''fast search''
        demo_context))
   \<and> sublist ''The login page is slow. Add a cache.''
     (enhancedPrompt (pattern_apply demo_base TopicCoherenceAnalyzer
        ''The login page is slow. Add a cache.'' demo_context))"
proof -
  have 1: "applied (pattern_apply demo_base ConversationSummarizer
             ''i want also only performance security mobile desktop'' demo_context)"
    unfolding applied_iff_applicable by code_simp
  have 2: "applied (pattern_apply demo_base RequirementPrioritizer ''We need login'' demo_context)"
    unfolding applied_iff_applicable by code_simp
  have 3: "applied (pattern_apply demo_base UserPersonaEnricher ''Build an API'' demo_context)"
    unfolding applied_iff_applicable by code_simp
  have 4: "applied (pattern_apply demo_base ImplicitRequirementExtractor ''fast search''
             demo_context)"
    unfolding applied_iff_applicable by code_simp
  have 5: "applied (pattern_apply demo_base TopicCoherenceAnalyzer
             ''The login page is slow. Add a cache.'' demo_context)"
    unfolding applied_iff_applicable by code_simp
  show ?thesis
    using applied_pattern_keeps_input [OF 1] applied_pattern_keeps_input [OF 2]
      applied_pattern_keeps_input [OF 3] applied_pattern_keeps_input [OF 4]
      applied_pattern_keeps_input [OF 5]
    by blast
qed

subsection \<open>The lists of ConversationSummarizer\<close>


lemma cleaned_list_push: "cleaned_list items \<Longrightarrow> cleaned_list (push_cleaned items g)"
  by (auto simp: cleaned_list_def push_cleaned_def Let_def)

lemma cleaned_list_foldl_push:
  "cleaned_list items \<Longrightarrow> cleaned_list (foldl push_cleaned items groups)"
  by (induction groups arbitrary: items) (simp_all add: cleaned_list_push)

lemma cleaned_list_collect_from:
  "cleaned_list items \<Longrightarrow>
     cleaned_list (foldl (\<lambda>items pattern. foldl push_cleaned items (rx_matchAll pattern 0 prompt))
                     items patterns)"
  by (induction patterns arbitrary: items) (simp_all add: cleaned_list_foldl_push)

lemma cleaned_list_Nil: "cleaned_list []"
  by (simp add: cleaned_list_def)

lemma cleaned_list_collect: "cleaned_list (collect_matches patterns prompt)"
  unfolding collect_matches_def by (rule cleaned_list_collect_from) (rule cleaned_list_Nil)

lemma cleaned_list_take: "cleaned_list items \<Longrightarrow> cleaned_list (take n items)"
  by (auto simp: cleaned_list_def dest: in_set_takeD)

lemma cleaned_list_sentence:
  "cleaned_list reqs \<Longrightarrow>
     cleaned_list (foldl (\<lambda>reqs pattern.
                            case rx_exec pattern sentence of
                              None \<Rightarrow> reqs
                            | Some (t, g, r) \<Rightarrow> push_cleaned reqs g)
                         reqs patterns)"
  by (induction patterns arbitrary: reqs) (auto simp: cleaned_list_push split: option.splits)

lemma cleaned_list_sentences:
  "cleaned_list reqs \<Longrightarrow>
     cleaned_list (foldl (\<lambda>reqs sentence.
                            foldl (\<lambda>reqs pattern.
                                     case rx_exec pattern sentence of
                                       None \<Rightarrow> reqs
                                     | Some (t, g, r) \<Rightarrow> push_cleaned reqs g)
                                  reqs patterns)
                         reqs sentences)"
  by (induction sentences arbitrary: reqs) (simp_all add: cleaned_list_sentence)

lemma cleaned_list_extractGoals: "cleaned_list (extractGoals prompt)"
  unfolding extractGoals_def by (intro cleaned_list_take cleaned_list_collect)

lemma cleaned_list_extractRequirements: "cleaned_list (extractRequirements base prompt)"
  unfolding extractRequirements_def Let_def
  by (intro cleaned_list_take cleaned_list_sentences cleaned_list_Nil)

lemma length_cleanRequirement: "length (cleanRequirement raw) \<le> 200"
  by (simp add: cleanRequirement_def)

lemma extractConstraints_items:
  assumes "item \<in> set (extractConstraints prompt)"
  shows "(item \<noteq> [] \<and> (\<exists>raw. item = cleanRequirement raw)) \<or> item \<in> set keyword_constraints"
proof -
  have c0: "cleaned_list (collect_matches constraintPatterns prompt)"
    by (rule cleaned_list_collect)
  from assms have "item \<in> set (collect_matches constraintPatterns prompt)
                   \<or> item \<in> set keyword_constraints"
    by (auto simp: extractConstraints_def Let_def keyword_constraints_def
             dest!: in_set_takeD split: if_splits)
  with c0 show ?thesis
    by (auto simp: cleaned_list_def)
qed

text \<open>
  Claim C7, as the code has it. For every input text the lists that
  \<^verbatim>\<open>ConversationSummarizer\<close> emits are capped at 3 goals, 10 requirements and 5
  constraints. Goals and requirements are free of duplicates and each of their items is a
  non-empty result of \<^const>\<open>cleanRequirement\<close> (trim, strip trailing punctuation,
  collapse white space, cut to 200 characters); each constraint is such an item or one of
  the three fixed keyword sentences; no item is longer than 200 characters.
\<close>

theorem summarizer_lists_capped:
  "length (extractGoals prompt) \<le> 3
   \<and> length (extractRequirements base prompt) \<le> 10
   \<and> length (extractConstraints prompt) \<le> 5
   \<and> cleaned_list (extractGoals prompt)
   \<and> cleaned_list (extractRequirements base prompt)
   \<and> (\<forall>item \<in> set (extractConstraints prompt).
         (item \<noteq> [] \<and> (\<exists>raw. item = cleanRequirement raw)) \<or> item \<in> set keyword_constraints)
   \<and> (\<forall>item \<in> set (extractGoals prompt) \<union> set (extractRequirements base prompt)
                 \<union> set (extractConstraints prompt). length item \<le> 200)"
proof -
  have caps: "length (extractGoals prompt) \<le> 3" "length (extractRequirements base prompt) \<le> 10"
    "length (extractConstraints prompt) \<le> 5"
    by (simp_all add: extractGoals_def extractRequirements_def extractConstraints_def Let_def)
  have g: "cleaned_list (extractGoals prompt)"
    by (rule cleaned_list_extractGoals)
  have r: "cleaned_list (extractRequirements base prompt)"
    by (rule cleaned_list_extractRequirements)
  have c: "\<forall>item \<in> set (extractConstraints prompt).
         (item \<noteq> [] \<and> (\<exists>raw. item = cleanRequirement raw)) \<or> item \<in> set keyword_constraints"
    using extractConstraints_items by blast
  have kw: "\<forall>item \<in> set keyword_constraints. length item \<le> 200"
    by (simp add: keyword_constraints_def)
  have len: "\<forall>item \<in> set (extractGoals prompt) \<union> set (extractRequirements base prompt)
                 \<union> set (extractConstraints prompt). length item \<le> 200"
    using g r c kw length_cleanRequirement by (auto simp: cleaned_list_def)
  from caps g r c len show ?thesis
    by blast
qed

text \<open>
  Claim C7 as stated, with a cap of 3 on the constraints, fails: on this text the pattern
  applies and emits four constraints.
\<close>

theorem summarizer_caps_counterexample:
  "applied (ConversationSummarizer_apply demo_base
      ''i want also only performance security mobile desktop'' demo_context)
   \<and> extractConstraints ''i want also only performance security mobile desktop''
     = [''performance security mobile desktop'', ''Performance requirements to be defined'',
        ''Security requirements to be defined'', ''Must work on both mobile and desktop'']
   \<and> \<not> length (extractConstraints ''i want also only performance security mobile desktop'') \<le> 3"
proof -
  have "applicable demo_base ConversationSummarizer
           ''i want also only performance security mobile desktop''"
    by code_simp
  then have a: "applied (ConversationSummarizer_apply demo_base
      ''i want also only performance security mobile desktop'' demo_context)"
    using applied_iff_applicable [of demo_base ConversationSummarizer] by simp
  have b: "extractConstraints ''i want also only performance security mobile desktop''
     = [''performance security mobile desktop'', ''Performance requirements to be defined'',
        ''Security requirements to be defined'', ''Must work on both mobile and desktop'']"
    by code_simp
  from a b show ?thesis by simp
qed

text \<open>The theorem on a text with one goal and one constraint.\<close>

theorem summarizer_lists_capped_witness:
  "extractGoals ''trying to ship.\<newline>also only x''  = [''ship'']
   \<and> length (extractGoals ''trying to ship.\<newline>also only x'') \<le> 3
   \<and> length (extractConstraints ''trying to ship.\<newline>also only x'') \<le> 5
   \<and> length (extractRequirements demo_base ''trying to ship.\<newline>also only x'') \<le> 10
   \<and> distinct (extractGoals ''trying to ship.\<newline>also only x'')"
proof -
  have "extractGoals ''trying to ship.\<newline>also only x''  = [''ship'']"
    by code_simp
  then show ?thesis
    using summarizer_lists_capped [of "''trying to ship.\<newline>also only x''" demo_base]
    by (simp add: cleaned_list_def)
qed

end
